theory Spec2Isabelle
  imports Main "HOL-Library.Word" "HOL-Library.Log_Nat"
begin

section \<open>Stripe payment lambdas: data model\<close>

text \<open>
  The repository holds four AWS Lambda handlers, each its own \<^verbatim>\<open>package main\<close>:
  \<^verbatim>\<open>webhook\<close>, \<^verbatim>\<open>createCustomer\<close>, \<^verbatim>\<open>createPaymentIntent\<close> and \<^verbatim>\<open>confirmPayment\<close>.
  They share one MySQL database (tables \<^verbatim>\<open>Users\<close> and \<^verbatim>\<open>TransactionHistory\<close>) and one
  Stripe account. A Go \<^verbatim>\<open>error\<close> is modelled by its message, \<^verbatim>\<open>nil\<close> by \<open>None\<close>.
\<close>

type_synonym go_error = string

text \<open>
  \<^verbatim>\<open>events.APIGatewayProxyRequest\<close>: the handlers read the body and
  \<^verbatim>\<open>RequestContext.Identity.CognitoIdentityPoolID\<close> only.
\<close>

record APIGatewayProxyRequest =
  RequestBody :: string
  CognitoIdentityPoolID :: string

record APIGatewayProxyResponse =
  StatusCode :: int
  Body :: string
  Headers :: "(string \<times> string) list"

type_synonym handler_result = "APIGatewayProxyResponse \<times> go_error option"

text \<open>The webhook's JSON structs. \<^verbatim>\<open>Amount\<close> is a Go \<^verbatim>\<open>int64\<close>, in cents.\<close>

record PaymentIntent =
  ID :: string
  Amount :: "64 word"
  Currency :: string
  Description :: string
  Customer :: string

record StripeData =
  Object :: PaymentIntent

record StripeWebhookEvent =
  Type :: string
  Data :: StripeData

record ConfirmPaymentRequest =
  PaymentIntentID :: string

record PaymentIntentRequest =
  ReqAmount :: "64 word"
  ReqCurrency :: string
  PaymentMethodID :: string

text \<open>
  What the handlers read of stripe-go's \<^verbatim>\<open>stripe.PaymentIntent\<close> and
  \<^verbatim>\<open>stripe.Customer\<close>, and what they put into \<^verbatim>\<open>stripe.CustomerParams\<close> and
  \<^verbatim>\<open>stripe.PaymentIntentParams\<close>.
\<close>

record stripe_PaymentIntent =
  pi_ID :: string
  pi_Amount :: "64 word"
  pi_Status :: string

record stripe_Customer =
  cust_ID :: string

record stripe_CustomerParams =
  cp_Email :: string
  cp_Name :: string
  cp_Metadata :: "(string \<times> string) list"

record stripe_PaymentIntentParams =
  pp_Amount :: "64 word"
  pp_Currency :: string
  pp_Customer :: string
  pp_PaymentMethod :: string
  pp_SetupFutureUsage :: string

text \<open>The values of stripe-go's \<^verbatim>\<open>PaymentIntentStatus\<close> constants the switch names.\<close>

definition PaymentIntentStatusRequiresAction :: string where
  "PaymentIntentStatusRequiresAction = ''requires_action''"

definition PaymentIntentStatusSucceeded :: string where
  "PaymentIntentStatusSucceeded = ''succeeded''"

definition PaymentIntentStatusRequiresConfirmation :: string where
  "PaymentIntentStatusRequiresConfirmation = ''requires_confirmation''"

subsection \<open>float64\<close>

text \<open>
  A \<^verbatim>\<open>float64\<close> is modelled by the rational number it denotes. An IEEE-754 operation
  is the exact operation followed by rounding to 53 significant bits, to nearest, ties
  to even. The handlers only convert an \<^verbatim>\<open>int64\<close> and divide it by \<^verbatim>\<open>100.0\<close>, so every
  value lies between \<open>1/100\<close> and \<open>2^63\<close> in magnitude (or is zero): neither
  subnormals nor overflow occur, and the exponent range is left out.
\<close>

definition round_half_even :: "int \<Rightarrow> int \<Rightarrow> int" where
  "round_half_even p q =
     (let m = p div q; r = p mod q
      in if q < 2 * r \<or> (2 * r = q \<and> m mod 2 = 1) then m + 1 else m)"

text \<open>
  The binary scaling \<open>s\<close> with \<open>2^52 \<le> (p/q) * 2^s < 2^53\<close>, for positive \<open>p\<close> and \<open>q\<close>.
\<close>

definition f64_shift :: "int \<Rightarrow> int \<Rightarrow> int" where
  "f64_shift p q =
     (let s = 53 + bitlen q - bitlen p
      in if q * 2 ^ 53 * 2 ^ nat (- s) \<le> p * 2 ^ nat s then s - 1 else s)"

definition f64_round_pos :: "int \<Rightarrow> int \<Rightarrow> rat" where
  "f64_round_pos p q =
     (let s = f64_shift p q;
          m = round_half_even (p * 2 ^ nat s) (q * 2 ^ nat (- s))
      in Fract (m * 2 ^ nat (- s)) (2 ^ nat s))"

definition f64_round :: "rat \<Rightarrow> rat" where
  "f64_round x =
     (case quotient_of x of (p, q) \<Rightarrow>
        if p = 0 then 0
        else if p < 0 then - f64_round_pos (- p) q
        else f64_round_pos p q)"

text \<open>Go's conversion \<^verbatim>\<open>float64(n)\<close> of an \<^verbatim>\<open>int64\<close>, and float64 division.\<close>

definition float64_of_int64 :: "64 word \<Rightarrow> rat" where
  "float64_of_int64 n = f64_round (of_int (sint n))"

definition float64_div :: "rat \<Rightarrow> rat \<Rightarrow> rat" where
  "float64_div x y = f64_round (x / y)"

subsection \<open>The database\<close>

text \<open>
  A row of \<^verbatim>\<open>Users\<close>, in the column order the handlers scan. The Go struct
  \<^verbatim>\<open>User\<close> scans \<^verbatim>\<open>AccountBalance\<close> as text and never reads it; the table holds a number,
  which \<^verbatim>\<open>UPDATE ... AccountBalance + ?\<close> adds to. The schema is not part of the
  repository: the column's addition is taken to be exact. The tenth column, scanned
  into \<^verbatim>\<open>StripeID\<close>, is the one \<^verbatim>\<open>createCustomer\<close> updates as \<^verbatim>\<open>stripe_customer_id\<close>.
\<close>

record User =
  UserID :: string
  Username :: string
  Email :: string
  PhoneNumber :: string
  DateOfBirth :: string
  AccountVerificationStatus :: string
  CreatedAt :: string
  UpdatedAt :: string
  AccountBalance :: rat
  StripeID :: "string option"

text \<open>
  \<^verbatim>\<open>webhook\<close> stores \<^verbatim>\<open>time.Now()\<close> itself as the transaction date,
  \<^verbatim>\<open>confirmPayment\<close> stores the text \<^verbatim>\<open>time.Now().GoString()\<close>. A time is a number.
\<close>

datatype date_value = TimeValue nat | GoString nat

record Transaction =
  TransactionID :: string
  TxUserID :: string
  TransactionType :: string
  TxAmount :: rat
  TransactionStatus :: string
  TransactionDate :: date_value

text \<open>The SQL statements of the four handlers, with their arguments.\<close>

datatype sql_stmt =
    SelectUser string
  | UpdateBalance rat string
  | UpdateTransaction string date_value string
  | InsertTransaction Transaction
  | UpdateStripeID string string

text \<open>The calls to Stripe of the four handlers, with their arguments.\<close>

datatype stripe_call =
    CustomerGet string
  | CustomerNew stripe_CustomerParams
  | PaymentMethodAttach string string
  | PaymentIntentNew stripe_PaymentIntentParams
  | PaymentIntentConfirm string

text \<open>
  The mutable world: the two tables, and the statements and Stripe calls issued so far,
  in order.
\<close>

record world =
  Users :: "User list"
  TransactionHistory :: "Transaction list"
  db_log :: "sql_stmt list"
  stripe_log :: "stripe_call list"

text \<open>
  The collaborators the repository does not contain, as parameters: the JSON decoders
  and encoder of \<^verbatim>\<open>encoding/json\<close>, the failure of the \<open>n\<close>-th statement sent to
  the database (\<open>None\<close>: it runs), and the answer of Stripe to the \<open>n\<close>-th call.
  \<^verbatim>\<open>customer.Get\<close> returns a pointer the code tests for \<^verbatim>\<open>nil\<close>, hence an option.
\<close>

record env =
  json_event :: "string \<Rightarrow> go_error + StripeWebhookEvent"
  json_confirm :: "string \<Rightarrow> go_error + ConfirmPaymentRequest"
  json_intent :: "string \<Rightarrow> go_error + PaymentIntentRequest"
  json_marshal :: "(string \<times> string) list \<Rightarrow> go_error + string"
  db_fault :: "nat \<Rightarrow> go_error option"
  customer_Get :: "nat \<Rightarrow> string \<Rightarrow> go_error + stripe_Customer option"
  customer_New :: "nat \<Rightarrow> stripe_CustomerParams \<Rightarrow> go_error + stripe_Customer"
  paymentmethod_Attach :: "nat \<Rightarrow> string \<Rightarrow> string \<Rightarrow> go_error option"
  paymentintent_New :: "nat \<Rightarrow> stripe_PaymentIntentParams \<Rightarrow> go_error + stripe_PaymentIntent"
  paymentintent_Confirm :: "nat \<Rightarrow> string \<Rightarrow> go_error + stripe_PaymentIntent"

text \<open>What a statement does to the tables once the database runs it.\<close>

fun run_stmt :: "sql_stmt \<Rightarrow> world \<Rightarrow> world" where
  "run_stmt (SelectUser uid) w = w"
| "run_stmt (UpdateBalance d uid) w =
     w\<lparr>Users := map (\<lambda>u. if UserID u = uid
                           then u\<lparr>AccountBalance := AccountBalance u + d\<rparr> else u) (Users w)\<rparr>"
| "run_stmt (UpdateTransaction status date tid) w =
     w\<lparr>TransactionHistory :=
         map (\<lambda>t. if TransactionID t = tid
                   then t\<lparr>TransactionStatus := status, TransactionDate := date\<rparr> else t)
             (TransactionHistory w)\<rparr>"
| "run_stmt (InsertTransaction t) w = w\<lparr>TransactionHistory := TransactionHistory w @ [t]\<rparr>"
| "run_stmt (UpdateStripeID sid uid) w =
     w\<lparr>Users := map (\<lambda>u. if UserID u = uid then u\<lparr>StripeID := Some sid\<rparr> else u) (Users w)\<rparr>"

text \<open>\<^verbatim>\<open>db.Exec\<close>: the statement is sent; it either fails or runs.\<close>

definition db_Exec :: "env \<Rightarrow> sql_stmt \<Rightarrow> world \<Rightarrow> go_error option \<times> world" where
  "db_Exec E q w =
     (let w' = w\<lparr>db_log := db_log w @ [q]\<rparr>
      in case db_fault E (length (db_log w)) of
           Some e \<Rightarrow> (Some e, w')
         | None \<Rightarrow> (None, run_stmt q w'))"

text \<open>
  \<^verbatim>\<open>db.QueryRow("SELECT * FROM Users WHERE UserID = ?", userID).Scan(...)\<close>: the first
  matching row, or an error (the database's, or \<^verbatim>\<open>sql.ErrNoRows\<close>).
\<close>

definition db_QueryRow_User :: "env \<Rightarrow> string \<Rightarrow> world \<Rightarrow> (go_error + User) \<times> world" where
  "db_QueryRow_User E userID w =
     (let w' = w\<lparr>db_log := db_log w @ [SelectUser userID]\<rparr>
      in case db_fault E (length (db_log w)) of
           Some e \<Rightarrow> (Inl e, w')
         | None \<Rightarrow>
             (case find (\<lambda>u. UserID u = userID) (Users w) of
                None \<Rightarrow> (Inl ''sql: no rows in result set'', w')
              | Some u \<Rightarrow> (Inr u, w')))"

text \<open>The write statements: everything but the SELECT.\<close>

fun is_write :: "sql_stmt \<Rightarrow> bool" where
  "is_write (SelectUser uid) = False"
| "is_write q = True"

definition writes :: "world \<Rightarrow> sql_stmt list" where
  "writes w = filter is_write (db_log w)"

section \<open>The webhook handler\<close>

definition updateUserBalance :: "env \<Rightarrow> string \<Rightarrow> 64 word \<Rightarrow> world \<Rightarrow> go_error option \<times> world" where
  "updateUserBalance E userID amount w =
     (let amountInDollars = float64_div (float64_of_int64 amount) 100
      in case db_Exec E (UpdateBalance amountInDollars userID) w of
           (Some err, w') \<Rightarrow> (Some (''updateUserBalance: '' @ err), w')
         | (None, w') \<Rightarrow> (None, w'))"

definition updateTransactionHistory ::
  "env \<Rightarrow> string \<Rightarrow> string \<Rightarrow> date_value \<Rightarrow> world \<Rightarrow> go_error option \<times> world" where
  "updateTransactionHistory E transactionID status transactionDate w =
     (case db_Exec E (UpdateTransaction status transactionDate transactionID) w of
        (Some err, w') \<Rightarrow> (Some (''updateTransactionHistory: '' @ err), w')
      | (None, w') \<Rightarrow> (None, w'))"

text \<open>
  The handler. What it prints to standard output is left out; \<open>now\<close> is the reading of
  \<^verbatim>\<open>time.Now()\<close>.
\<close>

definition webhook :: "env \<Rightarrow> nat \<Rightarrow> APIGatewayProxyRequest \<Rightarrow> world \<Rightarrow> handler_result \<times> world" where
  "webhook E now request w =
     (case json_event E (RequestBody request) of
        Inl err \<Rightarrow>
          ((\<lparr>StatusCode = 500, Body = ''Error processing request'', Headers = []\<rparr>, None), w)
      | Inr webhookEvent \<Rightarrow>
          if Type webhookEvent = ''payment_intent.succeeded'' then
            (case updateTransactionHistory E (ID (Object (Data webhookEvent))) ''Completed''
                    (TimeValue now) w of
               (Some err, w1) \<Rightarrow>
                 ((\<lparr>StatusCode = 500, Body = ''Failed to update transaction history'',
                    Headers = []\<rparr>, None), w1)
             | (None, w1) \<Rightarrow>
                 (case updateUserBalance E (CognitoIdentityPoolID request)
                         (Amount (Object (Data webhookEvent))) w1 of
                    (Some err, w2) \<Rightarrow>
                      ((\<lparr>StatusCode = 500, Body = ''Failed to update user balance'',
                         Headers = []\<rparr>, None), w2)
                  | (None, w2) \<Rightarrow>
                      ((\<lparr>StatusCode = 200,
                         Body = ''Received confirmation from Stripe: ''
                                @ Description (Object (Data webhookEvent)),
                         Headers = []\<rparr>, None), w2)))
          else
            ((\<lparr>StatusCode = 200,
               Body = ''Received confirmation from Stripe: ''
                      @ Description (Object (Data webhookEvent)),
               Headers = []\<rparr>, None), w))"

section \<open>The customer handler\<close>

definition stripe_customer_Get ::
  "env \<Rightarrow> string \<Rightarrow> world \<Rightarrow> (go_error + stripe_Customer option) \<times> world" where
  "stripe_customer_Get E customerID w =
     (customer_Get E (length (stripe_log w)) customerID,
      w\<lparr>stripe_log := stripe_log w @ [CustomerGet customerID]\<rparr>)"

definition stripe_customer_New ::
  "env \<Rightarrow> stripe_CustomerParams \<Rightarrow> world \<Rightarrow> (go_error + stripe_Customer) \<times> world" where
  "stripe_customer_New E params w =
     (customer_New E (length (stripe_log w)) params,
      w\<lparr>stripe_log := stripe_log w @ [CustomerNew params]\<rparr>)"

definition findCustomerByStripeID ::
  "env \<Rightarrow> string \<Rightarrow> world \<Rightarrow> (go_error + stripe_Customer option) \<times> world" where
  "findCustomerByStripeID E customerID w =
     (case stripe_customer_Get E customerID w of
        (Inl err, w') \<Rightarrow> (Inl err, w')
      | (Inr c, w') \<Rightarrow> (Inr c, w'))"

definition json_headers :: "(string \<times> string) list" where
  "json_headers = [(''Content-Type'', ''application/json'')]"

text \<open>
  The tail of \<^verbatim>\<open>createCustomer\<close>, from \<^verbatim>\<open>params := &stripe.CustomerParams{...}\<close> on:
  reached when the user has no Stripe ID, and when the lookup returned no customer.
\<close>

definition createCustomer_new ::
  "env \<Rightarrow> string \<Rightarrow> User \<Rightarrow> world \<Rightarrow> handler_result \<times> world" where
  "createCustomer_new E userID user w =
     (let params = \<lparr>cp_Email = Email user, cp_Name = Username user,
                     cp_Metadata = [(''UserID'', userID)]\<rparr>
      in case stripe_customer_New E params w of
           (Inl err, w1) \<Rightarrow>
             ((\<lparr>StatusCode = 500,
                Body = ''Error creating new customer in Stripe: '' @ err,
                Headers = json_headers\<rparr>, Some err), w1)
         | (Inr c, w1) \<Rightarrow>
             (case db_Exec E (UpdateStripeID (cust_ID c) userID) w1 of
                (Some err, w2) \<Rightarrow>
                  ((\<lparr>StatusCode = 500, Body = ''Error updating user with new Stripe ID'',
                     Headers = json_headers\<rparr>, Some err), w2)
              | (None, w2) \<Rightarrow>
                  ((\<lparr>StatusCode = 200,
                     Body = ''Created new customer in Stripe with ID: '' @ cust_ID c,
                     Headers = json_headers\<rparr>, None), w2)))"

definition createCustomer :: "env \<Rightarrow> APIGatewayProxyRequest \<Rightarrow> world \<Rightarrow> handler_result \<times> world" where
  "createCustomer E request w =
     (let userID = CognitoIdentityPoolID request
      in case db_QueryRow_User E userID w of
           (Inl err, w0) \<Rightarrow>
             ((\<lparr>StatusCode = 500, Body = ''Error retrieving user from database'',
                Headers = json_headers\<rparr>, Some err), w0)
         | (Inr user, w0) \<Rightarrow>
             (case StripeID user of
                Some sid \<Rightarrow>
                  (case findCustomerByStripeID E sid w0 of
                     (Inl err, w1) \<Rightarrow>
                       ((\<lparr>StatusCode = 500,
                          Body = ''Error finding customer by Stripe ID: '' @ err,
                          Headers = json_headers\<rparr>, Some err), w1)
                   | (Inr (Some customer), w1) \<Rightarrow>
                       ((\<lparr>StatusCode = 200,
                          Body = ''Customer already exists with Stripe ID: '' @ cust_ID customer,
                          Headers = json_headers\<rparr>, None), w1)
                   | (Inr None, w1) \<Rightarrow> createCustomer_new E userID user w1)
              | None \<Rightarrow> createCustomer_new E userID user w0))"

section \<open>The payment-intent handler\<close>

definition stripe_paymentmethod_Attach ::
  "env \<Rightarrow> string \<Rightarrow> string \<Rightarrow> world \<Rightarrow> go_error option \<times> world" where
  "stripe_paymentmethod_Attach E pm customer w =
     (paymentmethod_Attach E (length (stripe_log w)) pm customer,
      w\<lparr>stripe_log := stripe_log w @ [PaymentMethodAttach pm customer]\<rparr>)"

definition stripe_paymentintent_New ::
  "env \<Rightarrow> stripe_PaymentIntentParams \<Rightarrow> world \<Rightarrow> (go_error + stripe_PaymentIntent) \<times> world" where
  "stripe_paymentintent_New E params w =
     (paymentintent_New E (length (stripe_log w)) params,
      w\<lparr>stripe_log := stripe_log w @ [PaymentIntentNew params]\<rparr>)"

definition createPaymentIntent ::
  "env \<Rightarrow> APIGatewayProxyRequest \<Rightarrow> world \<Rightarrow> handler_result \<times> world" where
  "createPaymentIntent E request w =
     (case json_intent E (RequestBody request) of
        Inl err \<Rightarrow> ((\<lparr>StatusCode = 400, Body = [], Headers = []\<rparr>, Some err), w)
      | Inr paymentIntent \<Rightarrow>
          (let userID = CognitoIdentityPoolID request
           in case db_QueryRow_User E userID w of
                (Inl err, w0) \<Rightarrow>
                  ((\<lparr>StatusCode = 500, Body = ''Error retrieving user from database'',
                     Headers = json_headers\<rparr>, Some err), w0)
              | (Inr user, w0) \<Rightarrow>
                  (case StripeID user of
                     None \<Rightarrow>
                       ((\<lparr>StatusCode = 200,
                          Body = ''Customer does not have a Stripe customer ID. Are they registered as a customer?'',
                          Headers = json_headers\<rparr>, None), w0)
                   | Some sid \<Rightarrow>
                       (case stripe_paymentmethod_Attach E (PaymentMethodID paymentIntent) sid w0 of
                          (Some err, w1) \<Rightarrow>
                            ((\<lparr>StatusCode = 500, Body = [], Headers = []\<rparr>, Some err), w1)
                        | (None, w1) \<Rightarrow>
                            (let params = \<lparr>pp_Amount = ReqAmount paymentIntent,
                                           pp_Currency = ReqCurrency paymentIntent,
                                           pp_Customer = sid,
                                           pp_PaymentMethod = PaymentMethodID paymentIntent,
                                           pp_SetupFutureUsage = ''off_session''\<rparr>
                             in case stripe_paymentintent_New E params w1 of
                                  (Inl err, w2) \<Rightarrow>
                                    ((\<lparr>StatusCode = 500, Body = [], Headers = []\<rparr>, Some err), w2)
                                | (Inr pi1, w2) \<Rightarrow>
                                    (case json_marshal E [(''payment_intent_id'', pi_ID pi1)] of
                                       Inl err \<Rightarrow>
                                         ((\<lparr>StatusCode = 500, Body = [], Headers = []\<rparr>,
                                           Some ''internal server error''), w2)
                                     | Inr response \<Rightarrow>
                                         ((\<lparr>StatusCode = 200, Body = response, Headers = []\<rparr>,
                                           None), w2)))))))"

section \<open>The confirmation handler\<close>

definition stripe_paymentintent_Confirm ::
  "env \<Rightarrow> string \<Rightarrow> world \<Rightarrow> (go_error + stripe_PaymentIntent) \<times> world" where
  "stripe_paymentintent_Confirm E intentID w =
     (paymentintent_Confirm E (length (stripe_log w)) intentID,
      w\<lparr>stripe_log := stripe_log w @ [PaymentIntentConfirm intentID]\<rparr>)"

definition insertTransaction ::
  "env \<Rightarrow> string \<Rightarrow> string \<Rightarrow> string \<Rightarrow> string \<Rightarrow> date_value \<Rightarrow> rat \<Rightarrow> world
     \<Rightarrow> go_error option \<times> world" where
  "insertTransaction E transactionID userID transactionType transactionStatus transactionDate
       amount w =
     (case db_Exec E (InsertTransaction
               \<lparr>TransactionID = transactionID, TxUserID = userID,
                TransactionType = transactionType, TxAmount = amount,
                TransactionStatus = transactionStatus, TransactionDate = transactionDate\<rparr>) w of
        (Some err, w') \<Rightarrow> (Some (''error inserting new transaction: '' @ err), w')
      | (None, w') \<Rightarrow> (None, w'))"

definition pending_body :: string where
  "pending_body = ''Payment succeeded and is pending. Funds will be available once payment is confrimed from Stripe.''"

text \<open>
  The switch on \<^verbatim>\<open>pi.Status\<close>. In the two \<^verbatim>\<open>Succeeded\<close> branches the error that
  \<^verbatim>\<open>insertTransaction\<close> returns is dropped, as in the source. The source's \<^verbatim>\<open>pi\<close> is \<open>pi1\<close> here.
\<close>

definition confirmPayment ::
  "env \<Rightarrow> nat \<Rightarrow> APIGatewayProxyRequest \<Rightarrow> world \<Rightarrow> handler_result \<times> world" where
  "confirmPayment E now request w =
     (case json_confirm E (RequestBody request) of
        Inl err \<Rightarrow> ((\<lparr>StatusCode = 400, Body = [], Headers = []\<rparr>, Some err), w)
      | Inr body \<Rightarrow>
          (case stripe_paymentintent_Confirm E (PaymentIntentID body) w of
             (Inl err, w1) \<Rightarrow> ((\<lparr>StatusCode = 500, Body = [], Headers = []\<rparr>, Some err), w1)
           | (Inr pi1, w1) \<Rightarrow>
               if pi_Status pi1 = PaymentIntentStatusRequiresAction then
                 ((\<lparr>StatusCode = 200,
                    Body = ''Additional authentication required. Possible issues with 3D secure auth ''
                           @ [CHR 0x0A] @ '' '' @ pi_Status pi1,
                    Headers = []\<rparr>, None), w1)
               else if pi_Status pi1 = PaymentIntentStatusSucceeded then
                 (case insertTransaction E (pi_ID pi1) (CognitoIdentityPoolID request)
                         ''Deposit'' ''Pending'' (GoString now)
                         (float64_of_int64 (pi_Amount pi1)) w1 of
                    (dropped, w2) \<Rightarrow>
                      ((\<lparr>StatusCode = 200, Body = pending_body, Headers = []\<rparr>, None), w2))
               else if pi_Status pi1 = PaymentIntentStatusRequiresConfirmation then
                 (case stripe_paymentintent_Confirm E (pi_ID pi1) w1 of
                    (Inl err, w2) \<Rightarrow>
                      ((\<lparr>StatusCode = 500, Body = ''Failed to confirm payment intent'',
                         Headers = []\<rparr>, None), w2)
                  | (Inr piAttemptTwo, w2) \<Rightarrow>
                      if pi_Status piAttemptTwo = PaymentIntentStatusSucceeded then
                        (case insertTransaction E (pi_ID pi1) (CognitoIdentityPoolID request)
                                ''Deposit'' ''Pending'' (GoString now)
                                (float64_of_int64 (pi_Amount piAttemptTwo)) w2 of
                           (dropped, w3) \<Rightarrow>
                             ((\<lparr>StatusCode = 200, Body = pending_body, Headers = []\<rparr>, None), w3))
                      else
                        ((\<lparr>StatusCode = 400,
                           Body = ''Tried to confirm the payment again, but failed... ''
                                  @ [CHR 0x0A] @ pi_Status piAttemptTwo,
                           Headers = []\<rparr>, None), w2))
               else
                 ((\<lparr>StatusCode = 400,
                    Body = ''Unhandled payment intent status '' @ [CHR 0x0A] @ '' '' @ pi_Status pi1,
                    Headers = []\<rparr>, None), w1)))"

section \<open>Notions the properties are stated with\<close>

text \<open>
  The value \<^verbatim>\<open>updateUserBalance\<close> hands to the database for an amount in cents:
  \<^verbatim>\<open>float64(amount) / 100.0\<close>.
\<close>

definition dollars :: "64 word \<Rightarrow> rat" where
  "dollars amount = float64_div (float64_of_int64 amount) 100"

text \<open>What the two UPDATE statements of the webhook do to one row.\<close>

definition credit :: "string \<Rightarrow> rat \<Rightarrow> User \<Rightarrow> User" where
  "credit uid d u = (if UserID u = uid then u\<lparr>AccountBalance := AccountBalance u + d\<rparr> else u)"

definition complete :: "string \<Rightarrow> date_value \<Rightarrow> Transaction \<Rightarrow> Transaction" where
  "complete tid date t =
     (if TransactionID t = tid
      then t\<lparr>TransactionStatus := ''Completed'', TransactionDate := date\<rparr> else t)"

text \<open>
  The same event delivered to the webhook once per element of \<open>nows\<close>, at those times.
\<close>

definition redeliver :: "env \<Rightarrow> APIGatewayProxyRequest \<Rightarrow> nat list \<Rightarrow> world \<Rightarrow> world" where
  "redeliver E request nows w = fold (\<lambda>now w'. snd (webhook E now request w')) nows w"

text \<open>The row \<^verbatim>\<open>QueryRow\<close> scans for a user id.\<close>

definition scanned_user :: "string \<Rightarrow> world \<Rightarrow> User option" where
  "scanned_user uid w = find (\<lambda>u. UserID u = uid) (Users w)"

text \<open>
  \<^verbatim>\<open>createCustomer\<close> returned the customer reference \<open>X\<close>: status 200, a
  \<^verbatim>\<open>nil\<close> error, and one of its two success bodies, ending in \<open>X\<close>.
\<close>

definition returns_reference :: "handler_result \<Rightarrow> string \<Rightarrow> bool" where
  "returns_reference r X \<longleftrightarrow>
     snd r = None \<and> StatusCode (fst r) = 200 \<and>
     (Body (fst r) = ''Created new customer in Stripe with ID: '' @ X
      \<or> Body (fst r) = ''Customer already exists with Stripe ID: '' @ X)"

section \<open>Concrete requests, worlds and collaborators\<close>

text \<open>
  The user of the README's sample event (Cognito identity pool id 7), without and with
  a Stripe customer id.
\<close>

definition user7 :: User where
  "user7 = \<lparr>UserID = ''7'', Username = ''Jenny Rosen'', Email = ''jenny@example.com'',
            PhoneNumber = ''555-0100'', DateOfBirth = ''1990-01-01'',
            AccountVerificationStatus = ''verified'', CreatedAt = ''2024-02-01'',
            UpdatedAt = ''2024-02-01'', AccountBalance = 0, StripeID = None\<rparr>"

definition world0 :: world where
  "world0 = \<lparr>Users = [user7], TransactionHistory = [], db_log = [], stripe_log = []\<rparr>"

definition world_mapped :: world where
  "world_mapped = world0\<lparr>Users := [user7\<lparr>StripeID := Some ''cus_1''\<rparr>]\<rparr>"

text \<open>The row \<^verbatim>\<open>confirmPayment\<close> inserts for intent \<^verbatim>\<open>pi_1\<close> of 2000 cents at time 5.\<close>

definition pending_pi_1 :: Transaction where
  "pending_pi_1 = \<lparr>TransactionID = ''pi_1'', TxUserID = ''7'', TransactionType = ''Deposit'',
                   TxAmount = 2000, TransactionStatus = ''Pending'',
                   TransactionDate = GoString 5\<rparr>"

definition world_pending :: world where
  "world_pending = world0\<lparr>TransactionHistory := [pending_pi_1]\<rparr>"

text \<open>
  A request of user 7. Its body is text the model never looks into: the decoder of each
  scenario below says what it decodes to. The second request carries a body that is not
  JSON, an opening brace and nothing else.
\<close>

definition request7 :: APIGatewayProxyRequest where
  "request7 = \<lparr>RequestBody = ''{}'', CognitoIdentityPoolID = ''7''\<rparr>"

definition request_malformed :: APIGatewayProxyRequest where
  "request_malformed = \<lparr>RequestBody = ''{'', CognitoIdentityPoolID = ''7''\<rparr>"

text \<open>
  Collaborators that refuse everything: no body parses, Stripe is unreachable; the
  database runs every statement.
\<close>

definition env0 :: env where
  "env0 = \<lparr>json_event = (\<lambda>b. Inl ''unexpected end of JSON input''),
           json_confirm = (\<lambda>b. Inl ''unexpected end of JSON input''),
           json_intent = (\<lambda>b. Inl ''unexpected end of JSON input''),
           json_marshal = (\<lambda>m. Inl ''unsupported value''),
           db_fault = (\<lambda>n. None),
           customer_Get = (\<lambda>n x. Inl ''connection refused''),
           customer_New = (\<lambda>n p. Inl ''connection refused''),
           paymentmethod_Attach = (\<lambda>n pm c. Some ''connection refused''),
           paymentintent_New = (\<lambda>n p. Inl ''connection refused''),
           paymentintent_Confirm = (\<lambda>n x. Inl ''connection refused'')\<rparr>"

definition succeeded_event :: "64 word \<Rightarrow> StripeWebhookEvent" where
  "succeeded_event amount =
     \<lparr>Type = ''payment_intent.succeeded'',
      Data = \<lparr>Object = \<lparr>ID = ''pi_1'', Amount = amount, Currency = ''usd'',
                        Description = ''deposit'', Customer = ''cus_1''\<rparr>\<rparr>\<rparr>"

text \<open>
  The body decodes to a \<^verbatim>\<open>payment_intent.succeeded\<close> event for \<^verbatim>\<open>pi_1\<close>; the
  database fails as \<open>fault\<close> says.
\<close>

definition no_fault :: "nat \<Rightarrow> go_error option" where
  "no_fault n = None"

definition always_fault :: "nat \<Rightarrow> go_error option" where
  "always_fault n = Some ''Error 1062: Duplicate entry''"

definition second_fault :: "nat \<Rightarrow> go_error option" where
  "second_fault n = (if n = 1 then Some ''invalid connection'' else None)"

definition env_event :: "64 word \<Rightarrow> (nat \<Rightarrow> go_error option) \<Rightarrow> env" where
  "env_event amount fault =
     env0\<lparr>json_event := (\<lambda>b. Inr (succeeded_event amount)), db_fault := fault\<rparr>"

text \<open>
  The body names intent \<^verbatim>\<open>pi_1\<close>; Stripe answers the first confirm call with status
  \<open>s1\<close> and every later one with \<open>s2\<close>; the database fails as \<open>fault\<close> says.
\<close>

definition env_confirm :: "string \<Rightarrow> string \<Rightarrow> (nat \<Rightarrow> go_error option) \<Rightarrow> env" where
  "env_confirm s1 s2 fault =
     env0\<lparr>json_confirm := (\<lambda>b. Inr \<lparr>PaymentIntentID = ''pi_1''\<rparr>),
          paymentintent_Confirm :=
            (\<lambda>n x. Inr \<lparr>pi_ID = x, pi_Amount = 2000, pi_Status = (if n = 0 then s1 else s2)\<rparr>),
          db_fault := fault\<rparr>"

text \<open>The body asks for 2000 cents in usd with payment method \<^verbatim>\<open>pm_1\<close>.\<close>

definition env_intent :: env where
  "env_intent =
     env0\<lparr>json_intent := (\<lambda>b. Inr \<lparr>ReqAmount = 2000, ReqCurrency = ''usd'',
                                     PaymentMethodID = ''pm_1''\<rparr>)\<rparr>"

text \<open>
  Stripe finds every customer it is asked for, and creates \<^verbatim>\<open>cus_1\<close>.
\<close>

definition env_customers :: env where
  "env_customers =
     env0\<lparr>customer_Get := (\<lambda>n x. Inr (Some \<lparr>cust_ID = x\<rparr>)),
          customer_New := (\<lambda>n p. Inr \<lparr>cust_ID = ''cus_1''\<rparr>)\<rparr>"

section \<open>Auxiliary facts\<close>

subsection \<open>float64 rounding\<close>

lemma round_half_even_exact: "0 < q \<Longrightarrow> round_half_even (k * q) q = k"
  by (simp add: round_half_even_def Let_def)

lemma bitlen_le_53:
  assumes "0 < k" "k < 2 ^ 53"
  shows "bitlen k \<le> 53"
proof (rule ccontr)
  assume "\<not> bitlen k \<le> 53"
  then have "53 \<le> bitlen k - 1" by simp
  then have "(2::int) ^ 53 \<le> 2 ^ nat (bitlen k - 1)"
    by (intro power_increasing) auto
  with bitlen_bounds [OF assms(1)] assms(2) show False by simp
qed

lemma f64_shift_int:
  assumes "0 < k" "k < 2 ^ 53"
  shows "0 \<le> f64_shift k 1"
proof -
  have b: "bitlen k \<le> 53" using assms by (rule bitlen_le_53)
  have one: "bitlen 1 = 1" by (simp add: bitlen_alt_def)
  show ?thesis
    using b by (simp add: f64_shift_def Let_def one)
qed

lemma f64_round_pos_int:
  assumes "0 < k" "k < 2 ^ 53"
  shows "f64_round_pos k 1 = of_int k"
proof -
  define s where "s = f64_shift k 1"
  have s: "0 \<le> s" unfolding s_def using assms by (rule f64_shift_int)
  then have n: "nat (- s) = 0" by simp
  have m: "round_half_even (k * 2 ^ nat s) 1 = k * 2 ^ nat s"
    using round_half_even_exact [of 1 "k * 2 ^ nat s"] by simp
  have "f64_round_pos k 1 = Fract (k * 2 ^ nat s) (2 ^ nat s)"
    by (simp add: f64_round_pos_def Let_def s_def [symmetric] n m)
  also have "\<dots> = of_int k"
    by (simp add: Fract_of_int_quotient)
  finally show ?thesis .
qed

lemma f64_round_int:
  assumes "\<bar>k\<bar> < 2 ^ 53"
  shows "f64_round (of_int k) = of_int k"
proof -
  consider "k = 0" | "0 < k" | "k < 0" by linarith
  then show ?thesis
  proof cases
    case 1 then show ?thesis by (simp add: f64_round_def)
  next
    case 2
    with assms have "k < 2 ^ 53" by simp
    with 2 show ?thesis by (simp add: f64_round_def f64_round_pos_int)
  next
    case 3
    with assms have "0 < - k" "- k < 2 ^ 53" by simp_all
    then have "f64_round_pos (- k) 1 = of_int (- k)" by (rule f64_round_pos_int)
    with 3 show ?thesis by (simp add: f64_round_def)
  qed
qed

lemma amount_exact:
  assumes "\<bar>sint a\<bar> < 2 ^ 53" "100 dvd sint a"
  shows "float64_div (float64_of_int64 a) 100 = of_int (sint a) / 100"
proof -
  obtain k where k: "sint a = 100 * k" using assms(2) by (auto simp: dvd_def)
  have kb: "\<bar>k\<bar> < 2 ^ 53" using assms(1) k by simp
  have "float64_of_int64 a = of_int (sint a)"
    unfolding float64_of_int64_def using assms(1) by (rule f64_round_int)
  then have "float64_div (float64_of_int64 a) 100 = f64_round (of_int (100 * k) / 100)"
    by (simp add: float64_div_def k)
  also have "of_int (100 * k) / (100::rat) = of_int k" by simp
  also have "f64_round (of_int k) = of_int k" using kb by (rule f64_round_int)
  finally show ?thesis by (simp add: k)
qed

lemma powi_split: "(2::rat) powi s = 2 ^ nat s / 2 ^ nat (- s)"
  by (cases "0 \<le> s") (simp_all add: power_int_def field_simps)

lemma bitlen_powi:
  assumes "0 < p"
  shows "(2::rat) powi (bitlen p - 1) \<le> of_int p" "(of_int p :: rat) < 2 powi (bitlen p)"
proof -
  have b1: "1 \<le> bitlen p" using assms by (simp add: bitlen_alt_def)
  have lo: "2 ^ nat (bitlen p - 1) \<le> p" and hi: "p < 2 ^ nat (bitlen p)"
    using bitlen_bounds [OF assms] by simp_all
  have "(2::rat) powi (bitlen p - 1) = of_int (2 ^ nat (bitlen p - 1))"
    using b1 by (simp add: power_int_def)
  also have "\<dots> \<le> of_int p" using lo by (simp only: of_int_le_iff)
  finally show "(2::rat) powi (bitlen p - 1) \<le> of_int p" .
  have "(of_int p :: rat) < of_int (2 ^ nat (bitlen p))" using hi by (simp only: of_int_less_iff)
  also have "\<dots> = 2 powi (bitlen p)" using b1 by (simp add: power_int_def)
  finally show "(of_int p :: rat) < 2 powi (bitlen p)" .
qed

lemma round_half_even_err:
  assumes "0 < B"
  shows "\<bar>of_int (round_half_even A B) - (of_int A / of_int B :: rat)\<bar> \<le> 1 / 2"
proof -
  define m r where "m = A div B" and "r = A mod B"
  have A: "A = m * B + r" by (simp add: m_def r_def)
  have r: "0 \<le> r" "r < B" using assms by (simp_all add: r_def)
  have Bq: "(0::rat) < of_int B" using assms by simp
  have q: "(of_int A / of_int B :: rat) = of_int m + of_int r / of_int B"
    using Bq by (simp add: A field_simps)
  show ?thesis
  proof (cases "B < 2 * r \<or> (2 * r = B \<and> m mod 2 = 1)")
    case True
    then have "B \<le> 2 * r" by auto
    then have "(of_int B :: rat) \<le> 2 * of_int r" by (metis of_int_le_iff of_int_mult of_int_numeral)
    moreover have "(of_int r :: rat) < of_int B" using r by simp
    ultimately have "\<bar>1 - of_int r / (of_int B :: rat)\<bar> \<le> 1 / 2"
      using Bq by (simp add: field_simps abs_le_iff)
    moreover have "round_half_even A B = m + 1"
      using True by (simp add: round_half_even_def Let_def m_def r_def)
    ultimately show ?thesis by (simp add: q)
  next
    case False
    then have "2 * r \<le> B" by auto
    then have "2 * of_int r \<le> (of_int B :: rat)" by (metis of_int_le_iff of_int_mult of_int_numeral)
    moreover have "(0::rat) \<le> of_int r" using r by simp
    ultimately have "\<bar>of_int r / (of_int B :: rat)\<bar> \<le> 1 / 2"
      using Bq by (simp add: field_simps abs_le_iff)
    moreover have "round_half_even A B = m"
      using False by (simp add: round_half_even_def Let_def m_def r_def)
    ultimately show ?thesis by (simp add: q)
  qed
qed


lemma f64_shift_range:
  assumes p: "0 < p" and q: "0 < q"
  shows "2 ^ 52 \<le> (of_int p / of_int q :: rat) * 2 powi (f64_shift p q)"
    and "(of_int p / of_int q :: rat) * 2 powi (f64_shift p q) < 2 ^ 53"
proof -
  define v :: rat where "v = of_int p / of_int q"
  define s0 where "s0 = 53 + bitlen q - bitlen p"
  have qpos: "(0::rat) < of_int q" using q by simp
  have ppos: "(0::rat) < of_int p" using p by simp
  have e0: "(0::rat) < 2 powi s0" by simp
  have up: "v < 2 powi (bitlen p) / 2 powi (bitlen q - 1)"
  proof -
    have "v < 2 powi (bitlen p) / of_int q"
      unfolding v_def using bitlen_powi(2) [OF p] qpos by (simp add: divide_strict_right_mono)
    also have "\<dots> \<le> 2 powi (bitlen p) / 2 powi (bitlen q - 1)"
      using bitlen_powi(1) [OF q] qpos by (intro divide_left_mono mult_pos_pos) simp_all
    finally show ?thesis .
  qed
  have lo: "2 powi (bitlen p - 1) / 2 powi (bitlen q) < v"
  proof -
    have "(2::rat) powi (bitlen p - 1) / 2 powi (bitlen q) < 2 powi (bitlen p - 1) / of_int q"
      using bitlen_powi(2) [OF q] qpos by (intro divide_strict_left_mono) simp_all
    also have "\<dots> \<le> v"
      unfolding v_def using bitlen_powi(1) [OF p] qpos by (simp add: divide_right_mono)
    finally show ?thesis .
  qed
  have hi54: "v * 2 powi s0 < 2 ^ 54"
  proof -
    have "v * 2 powi s0 < 2 powi (bitlen p) / 2 powi (bitlen q - 1) * 2 powi s0"
      by (rule mult_strict_right_mono [OF up e0])
    also have "\<dots> = 2 powi (bitlen p - (bitlen q - 1) + s0)"
      by (simp add: power_int_add power_int_diff)
    also have "\<dots> = 2 powi 54" by (simp add: s0_def)
    finally show ?thesis by simp
  qed
  have lo52: "2 ^ 52 < v * 2 powi s0"
  proof -
    have "(2::rat) powi 52 = 2 powi (bitlen p - 1 - bitlen q + s0)" by (simp add: s0_def)
    also have "\<dots> = 2 powi (bitlen p - 1) / 2 powi (bitlen q) * 2 powi s0"
      by (simp add: power_int_add power_int_diff)
    also have "\<dots> < v * 2 powi s0"
      by (rule mult_strict_right_mono [OF lo e0])
    finally show ?thesis by simp
  qed
  have cond: "q * 2 ^ 53 * 2 ^ nat (- s0) \<le> p * 2 ^ nat s0 \<longleftrightarrow> 2 ^ 53 \<le> v * 2 powi s0"
  proof -
    have "q * 2 ^ 53 * 2 ^ nat (- s0) \<le> p * 2 ^ nat s0
      \<longleftrightarrow> (of_int (q * 2 ^ 53 * 2 ^ nat (- s0)) :: rat) \<le> of_int (p * 2 ^ nat s0)"
      by (simp only: of_int_le_iff)
    also have "\<dots> \<longleftrightarrow> (of_int q :: rat) * 2 ^ 53 * 2 ^ nat (- s0) \<le> of_int p * 2 ^ nat s0"
      by simp
    also have "\<dots> \<longleftrightarrow> 2 ^ 53 \<le> v * (2 ^ nat s0 / 2 ^ nat (- s0))"
      unfolding v_def using qpos by (simp add: field_simps)
    finally show ?thesis by (simp add: powi_split)
  qed
  have half: "v * 2 powi (s0 - 1) = v * 2 powi s0 / 2"
    by (simp add: power_int_diff)
  have sh: "f64_shift p q = (if 2 ^ 53 \<le> v * 2 powi s0 then s0 - 1 else s0)"
    using cond by (simp add: f64_shift_def Let_def s0_def [symmetric])
  show "2 ^ 52 \<le> (of_int p / of_int q :: rat) * 2 powi (f64_shift p q)"
    unfolding v_def [symmetric] sh using lo52 by (simp add: half)
  show "(of_int p / of_int q :: rat) * 2 powi (f64_shift p q) < 2 ^ 53"
    unfolding v_def [symmetric] sh using hi54 by (simp add: half)
qed

lemma f64_round_pos_err:
  assumes p: "0 < p" and q: "0 < q"
  shows "\<bar>f64_round_pos p q - of_int p / of_int q\<bar> \<le> (of_int p / of_int q) / 2 ^ 53"
proof -
  define v :: rat where "v = of_int p / of_int q"
  define s where "s = f64_shift p q"
  define A B where "A = p * 2 ^ nat s" and "B = q * 2 ^ nat (- s)"
  define m where "m = round_half_even A B"
  have B: "0 < B" using q by (simp add: B_def)
  have AB: "(of_int A / of_int B :: rat) = v * 2 powi s"
    by (simp add: A_def B_def v_def powi_split)
  have val: "f64_round_pos p q = of_int m / 2 powi s"
    by (simp add: f64_round_pos_def Let_def s_def [symmetric] A_def [symmetric]
        B_def [symmetric] m_def [symmetric] Fract_of_int_quotient powi_split)
  have e: "(0::rat) < 2 powi s" by simp
  have err: "\<bar>of_int m - v * 2 powi s\<bar> \<le> 1 / 2"
    using round_half_even_err [OF B, of A] by (simp add: m_def AB)
  have big: "2 ^ 52 \<le> v * 2 powi s"
    unfolding v_def s_def using p q by (rule f64_shift_range(1))
  have "f64_round_pos p q - v = (of_int m - v * 2 powi s) / 2 powi s"
    using e by (simp add: val field_simps)
  then have "\<bar>f64_round_pos p q - v\<bar> = \<bar>of_int m - v * 2 powi s\<bar> / 2 powi s"
    using e by simp
  also have "\<dots> \<le> (1 / 2) / 2 powi s"
    using err e by (intro divide_right_mono) simp_all
  also have "\<dots> \<le> (v * 2 powi s / 2 ^ 53) / 2 powi s"
    using big e by (intro divide_right_mono) simp_all
  also have "\<dots> = v / 2 ^ 53" using e by simp
  finally show ?thesis by (simp add: v_def)
qed

lemma f64_round_err: "\<bar>f64_round x - x\<bar> \<le> \<bar>x\<bar> / 2 ^ 53"
proof -
  obtain p q where pq: "quotient_of x = (p, q)" by (cases "quotient_of x")
  have q: "0 < q" using pq by (rule quotient_of_denom_pos)
  have x: "x = of_int p / of_int q" using pq by (rule quotient_of_div)
  consider "p = 0" | "0 < p" | "p < 0" by linarith
  then show ?thesis
  proof cases
    case 1 then show ?thesis by (simp add: f64_round_def pq x)
  next
    case 2
    then have "f64_round x = f64_round_pos p q" by (simp add: f64_round_def pq)
    moreover have "\<bar>x\<bar> = of_int p / of_int q" using 2 q by (simp add: x)
    ultimately show ?thesis using f64_round_pos_err [OF 2 q] by (simp add: x)
  next
    case 3
    then have np: "0 < - p" by simp
    have r: "f64_round x = - f64_round_pos (- p) q" using 3 by (simp add: f64_round_def pq)
    have ax: "\<bar>x\<bar> = of_int (- p) / of_int q" using 3 q by (simp add: x abs_if field_simps)
    have xm: "- x = of_int (- p) / of_int q" by (simp add: x)
    have "f64_round x - x = - (f64_round_pos (- p) q - (- x))"
      by (simp add: r)
    then have "f64_round x - x = - (f64_round_pos (- p) q - of_int (- p) / of_int q)"
      by (simp only: xm)
    then have "\<bar>f64_round x - x\<bar> = \<bar>f64_round_pos (- p) q - of_int (- p) / of_int q\<bar>"
      by (simp only: abs_minus_cancel)
    also have "\<dots> \<le> (of_int (- p) / of_int q) / 2 ^ 53" using np q by (rule f64_round_pos_err)
    finally show ?thesis by (simp only: ax)
  qed
qed

subsection \<open>The webhook\<close>

lemma webhook_succeeded_world:
  assumes "json_event E (RequestBody request) = Inr ev"
      and "Type ev = ''payment_intent.succeeded''"
      and "db_fault E (length (db_log w)) = None"
      and "db_fault E (Suc (length (db_log w))) = None"
  shows "webhook E now request w =
     ((\<lparr>StatusCode = 200,
        Body = ''Received confirmation from Stripe: '' @ Description (Object (Data ev)),
        Headers = []\<rparr>, None),
      w\<lparr>db_log := db_log w @
           [UpdateTransaction ''Completed'' (TimeValue now) (ID (Object (Data ev))),
            UpdateBalance (dollars (Amount (Object (Data ev)))) (CognitoIdentityPoolID request)],
        TransactionHistory := map (complete (ID (Object (Data ev))) (TimeValue now)) (TransactionHistory w),
        Users := map (credit (CognitoIdentityPoolID request) (dollars (Amount (Object (Data ev))))) (Users w)\<rparr>)"
  using assms
  by (simp add: webhook_def updateTransactionHistory_def updateUserBalance_def db_Exec_def
      Let_def credit_def complete_def dollars_def)

lemma complete_idem: "complete tid d2 (complete tid d1 t) = complete tid d2 t"
  by (simp add: complete_def)

lemma credit_add: "credit uid d2 (credit uid d1 u) = credit uid (d1 + d2) u"
  by (simp add: credit_def)

lemma credit_zero: "credit uid 0 u = u"
  by (simp add: credit_def)

lemma redeliver_world:
  assumes ev: "json_event E (RequestBody request) = Inr ev"
      and ty: "Type ev = ''payment_intent.succeeded''"
      and nf: "\<And>n. db_fault E n = None"
  shows "TransactionHistory (redeliver E request nows w) =
           (if nows = [] then TransactionHistory w
            else map (complete (ID (Object (Data ev))) (TimeValue (last nows))) (TransactionHistory w))
       \<and> Users (redeliver E request nows w) =
           map (credit (CognitoIdentityPoolID request)
                  (of_nat (length nows) * dollars (Amount (Object (Data ev))))) (Users w)"
proof (induction nows arbitrary: w)
  case Nil
  show ?case by (simp add: redeliver_def credit_zero)
next
  case (Cons t ts)
  let ?w1 = "snd (webhook E t request w)"
  have step: "redeliver E request (t # ts) w = redeliver E request ts ?w1"
    by (simp add: redeliver_def)
  have w1: "TransactionHistory ?w1 = map (complete (ID (Object (Data ev))) (TimeValue t)) (TransactionHistory w)"
       "Users ?w1 = map (credit (CognitoIdentityPoolID request) (dollars (Amount (Object (Data ev))))) (Users w)"
    using webhook_succeeded_world [where w=w and now=t, OF ev ty nf nf] by simp_all
  show ?case
    unfolding step using Cons.IH [of ?w1]
    by (simp add: w1 complete_idem credit_add o_def algebra_simps)
qed

subsection \<open>The customer handler\<close>

lemma find_set_StripeID:
  "find (\<lambda>u. UserID u = uid)
        (map (\<lambda>u. if UserID u = uid then u\<lparr>StripeID := Some s\<rparr> else u) xs) =
   map_option (\<lambda>u. u\<lparr>StripeID := Some s\<rparr>) (find (\<lambda>u. UserID u = uid) xs)"
  by (induction xs) auto

lemma createCustomer_new_writes:
  "length (writes (snd (createCustomer_new E uid user w))) \<le> length (writes w) + 1"
  by (simp add: createCustomer_new_def stripe_customer_New_def db_Exec_def writes_def Let_def
      split: sum.splits option.splits prod.splits)

lemma writes_select: "writes (w\<lparr>db_log := db_log w @ [SelectUser u]\<rparr>) = writes w"
  by (simp add: writes_def)

lemma writes_stripe_log: "writes (w\<lparr>stripe_log := l\<rparr>) = writes w"
  by (simp add: writes_def)

lemma createCustomer_writes:
  "length (writes (snd (createCustomer E request w))) \<le> length (writes w) + 1"
proof -
  let ?uid = "CognitoIdentityPoolID request"
  let ?w0 = "w\<lparr>db_log := db_log w @ [SelectUser ?uid]\<rparr>"
  have new: "length (writes (snd (createCustomer_new E ?uid user w'))) \<le> length (writes w) + 1"
    if "writes w' = writes w" for user w'
    using createCustomer_new_writes [of E ?uid user w'] that by simp
  have n0: "length (writes (snd (createCustomer_new E ?uid user ?w0))) \<le> length (writes w) + 1" for user
    by (rule new) (simp add: writes_select)
  have n1: "length (writes (snd (createCustomer_new E ?uid user (?w0\<lparr>stripe_log := l\<rparr>)))) \<le> length (writes w) + 1" for user l
    by (rule new) (simp add: writes_select writes_stripe_log)
  show ?thesis
    using n0 n1
    by (simp add: createCustomer_def db_QueryRow_User_def findCustomerByStripeID_def
        stripe_customer_Get_def Let_def writes_select writes_stripe_log
        split: sum.splits option.splits prod.splits)
qed


lemma scanned_user_logs [simp]:
  "scanned_user uid (w\<lparr>db_log := l\<rparr>) = scanned_user uid w"
  "scanned_user uid (w\<lparr>stripe_log := l'\<rparr>) = scanned_user uid w"
  by (simp_all add: scanned_user_def)

lemma createCustomer_new_reference:
  assumes "returns_reference (fst (createCustomer_new E uid user w)) X"
      and "scanned_user uid w = Some user"
  shows "\<exists>u. scanned_user uid (snd (createCustomer_new E uid user w)) = Some u \<and> StripeID u = Some X"
  using assms
  by (auto simp: createCustomer_new_def stripe_customer_New_def db_Exec_def Let_def
      returns_reference_def scanned_user_def find_set_StripeID
      split: sum.splits option.splits prod.splits)

lemma createCustomer_reference:
  assumes faithful: "\<And>n y c. customer_Get E n y = Inr (Some c) \<Longrightarrow> cust_ID c = y"
      and ref: "returns_reference (fst (createCustomer E request w)) X"
  shows "\<exists>u. scanned_user (CognitoIdentityPoolID request) (snd (createCustomer E request w)) = Some u
             \<and> StripeID u = Some X"
proof -
  let ?uid = "CognitoIdentityPoolID request"
  let ?w0 = "w\<lparr>db_log := db_log w @ [SelectUser ?uid]\<rparr>"
  show ?thesis
  proof (cases "db_fault E (length (db_log w))")
    case (Some e)
    with ref show ?thesis
      by (simp add: createCustomer_def db_QueryRow_User_def Let_def returns_reference_def)
  next
    case None
    show ?thesis
    proof (cases "scanned_user ?uid w")
      case no: None
      with ref None show ?thesis
        by (simp add: createCustomer_def db_QueryRow_User_def Let_def returns_reference_def
            scanned_user_def)
    next
      case (Some user)
      note user = this
      show ?thesis
      proof (cases "StripeID user")
        case sid: None
        have eq: "createCustomer E request w = createCustomer_new E ?uid user ?w0"
          using None user sid
          by (simp add: createCustomer_def db_QueryRow_User_def Let_def scanned_user_def)
        show ?thesis
          using createCustomer_new_reference [of E ?uid user ?w0 X] ref user
          by (simp add: eq)
      next
        case (Some sid)
        note sid = this
        let ?w1 = "?w0\<lparr>stripe_log := stripe_log w @ [CustomerGet sid]\<rparr>"
        show ?thesis
        proof (cases "customer_Get E (length (stripe_log w)) sid")
          case (Inl e)
          with ref None user sid show ?thesis
            by (simp add: createCustomer_def db_QueryRow_User_def Let_def scanned_user_def
                findCustomerByStripeID_def stripe_customer_Get_def returns_reference_def)
        next
          case (Inr co)
          show ?thesis
          proof (cases co)
            case no: None
            have eq: "createCustomer E request w = createCustomer_new E ?uid user ?w1"
              using None user sid Inr no
              by (simp add: createCustomer_def db_QueryRow_User_def Let_def scanned_user_def
                  findCustomerByStripeID_def stripe_customer_Get_def)
            show ?thesis
              using createCustomer_new_reference [of E ?uid user ?w1 X] ref user
              by (simp add: eq)
          next
            case (Some c)
            have cid: "cust_ID c = sid"
              using faithful Inr Some by simp
            have eq: "createCustomer E request w =
                ((\<lparr>StatusCode = 200,
                   Body = ''Customer already exists with Stripe ID: '' @ sid,
                   Headers = json_headers\<rparr>, None), ?w1)"
              using None user sid Inr Some cid
              by (simp add: createCustomer_def db_QueryRow_User_def Let_def scanned_user_def
                  findCustomerByStripeID_def stripe_customer_Get_def)
            have "X = sid"
              using ref by (simp add: eq returns_reference_def)
            then show ?thesis
              using user sid by (simp add: eq)
          qed
        qed
      qed
    qed
  qed
qed

lemma createCustomer_existing:
  assumes "db_fault E (length (db_log w)) = None"
      and "scanned_user (CognitoIdentityPoolID request) w = Some u"
      and "StripeID u = Some X"
      and "customer_Get E (length (stripe_log w)) X = Inr (Some c)"
  shows "createCustomer E request w =
     ((\<lparr>StatusCode = 200,
        Body = ''Customer already exists with Stripe ID: '' @ cust_ID c,
        Headers = json_headers\<rparr>, None),
      w\<lparr>db_log := db_log w @ [SelectUser (CognitoIdentityPoolID request)],
        stripe_log := stripe_log w @ [CustomerGet X]\<rparr>)"
  using assms
  by (simp add: createCustomer_def db_QueryRow_User_def Let_def scanned_user_def
      findCustomerByStripeID_def stripe_customer_Get_def)

lemma createCustomer_overwrite:
  assumes "scanned_user (CognitoIdentityPoolID request) w = Some u"
      and "StripeID u = Some sid"
      and "Users (snd (createCustomer E request w)) \<noteq> Users w"
  shows "customer_Get E (length (stripe_log w)) sid = Inr None"
  using assms
  by (auto simp: createCustomer_def db_QueryRow_User_def Let_def scanned_user_def
      findCustomerByStripeID_def stripe_customer_Get_def
      split: sum.splits option.splits prod.splits)

section \<open>The claims\<close>

subsection \<open>C1: repeated application of the terminal-success ledger effect\<close>

text \<open>
  C1, as the code has it. The webhook applies the terminal-success effect without
  looking at the record's status. When the same \<^verbatim>\<open>payment_intent.succeeded\<close> event is
  delivered \<open>N \<ge> 1\<close> times to a database that runs every statement, the transaction
  records are what one delivery at the last delivery time leaves (status
  \<^verbatim>\<open>Completed\<close>, date of the last delivery), but the balance of the user named by the
  request identity has grown by \<open>N\<close> times \<^verbatim>\<open>float64(amount)/100.0\<close>, not by one.
\<close>

theorem webhook_redelivery_accumulates:
  assumes "json_event E (RequestBody request) = Inr ev"
      and "Type ev = ''payment_intent.succeeded''"
      and "\<forall>n. db_fault E n = None"
      and "nows \<noteq> []"
  shows "TransactionHistory (redeliver E request nows w) =
           map (complete (ID (Object (Data ev))) (TimeValue (last nows))) (TransactionHistory w)
       \<and> Users (redeliver E request nows w) =
           map (credit (CognitoIdentityPoolID request)
                  (of_nat (length nows) * dollars (Amount (Object (Data ev))))) (Users w)"
  using redeliver_world [of E request ev nows w] assms by simp

theorem webhook_redelivery_accumulates_witness:
  "json_event (env_event 2000 no_fault) (RequestBody request7) = Inr (succeeded_event 2000)
   \<and> Type (succeeded_event 2000) = ''payment_intent.succeeded''
   \<and> (\<forall>n. db_fault (env_event 2000 no_fault) n = None)
   \<and> [10, 11] \<noteq> ([] :: nat list)
   \<and> TransactionHistory (redeliver (env_event 2000 no_fault) request7 [10, 11] world_pending) =
       map (complete (ID (Object (Data (succeeded_event 2000)))) (TimeValue (last [10, 11])))
         (TransactionHistory world_pending)
   \<and> Users (redeliver (env_event 2000 no_fault) request7 [10, 11] world_pending) =
       map (credit (CognitoIdentityPoolID request7)
              (of_nat (length [10 :: nat, 11]) * dollars (Amount (Object (Data (succeeded_event 2000))))))
         (Users world_pending)"
proof -
  have h1: "json_event (env_event 2000 no_fault) (RequestBody request7) = Inr (succeeded_event 2000)"
    by (simp add: env_event_def env0_def)
  have h2: "Type (succeeded_event 2000) = ''payment_intent.succeeded''"
    by (simp add: succeeded_event_def)
  have h3: "\<forall>n. db_fault (env_event 2000 no_fault) n = None"
    by (simp add: env_event_def env0_def no_fault_def)
  have h4: "[10, 11] \<noteq> ([] :: nat list)" by simp
  show ?thesis
    using h1 h2 h3 h4 webhook_redelivery_accumulates [OF h1 h2 h3 h4, of world_pending]
    by blast
qed

text \<open>
  C1 as stated fails: one delivery of the 2000-cent event raises the balance from 0 to
  20, a second delivery of the same event raises it to 40.
\<close>

theorem webhook_redelivery_counterexample:
  "map AccountBalance (Users world_pending) = [0]
   \<and> map AccountBalance (Users (redeliver (env_event 2000 no_fault) request7 [10] world_pending)) = [20]
   \<and> map AccountBalance (Users (redeliver (env_event 2000 no_fault) request7 [10, 10] world_pending)) = [40]"
  by code_simp

subsection \<open>C2: an event for an intent the ledger has never seen\<close>

text \<open>
  C2, as the code has it. When a \<^verbatim>\<open>payment_intent.succeeded\<close> event arrives for an
  intent id that no transaction record carries, and the database runs both statements,
  the webhook answers 200, leaves \<^verbatim>\<open>TransactionHistory\<close> as it was (its UPDATE matches
  no row, and nothing is inserted), and raises the balance of the user named by the
  request identity once, by \<^verbatim>\<open>float64(amount)/100.0\<close>.
\<close>

theorem webhook_unseen_intent_no_record:
  assumes "json_event E (RequestBody request) = Inr ev"
      and "Type ev = ''payment_intent.succeeded''"
      and "db_fault E (length (db_log w)) = None"
      and "db_fault E (Suc (length (db_log w))) = None"
      and "\<forall>t \<in> set (TransactionHistory w). TransactionID t \<noteq> ID (Object (Data ev))"
  shows "fst (webhook E now request w) =
           (\<lparr>StatusCode = 200,
             Body = ''Received confirmation from Stripe: '' @ Description (Object (Data ev)),
             Headers = []\<rparr>, None)
       \<and> TransactionHistory (snd (webhook E now request w)) = TransactionHistory w
       \<and> Users (snd (webhook E now request w)) =
           map (credit (CognitoIdentityPoolID request) (dollars (Amount (Object (Data ev)))))
             (Users w)"
proof -
  have same: "map (complete (ID (Object (Data ev))) (TimeValue now)) (TransactionHistory w)
                = TransactionHistory w"
    using assms(5) by (intro map_idI) (simp add: complete_def)
  show ?thesis
    using webhook_succeeded_world [OF assms(1-4), of now] same by simp
qed

theorem webhook_unseen_intent_no_record_witness:
  "json_event (env_event 2000 no_fault) (RequestBody request7) = Inr (succeeded_event 2000)
   \<and> Type (succeeded_event 2000) = ''payment_intent.succeeded''
   \<and> db_fault (env_event 2000 no_fault) (length (db_log world0)) = None
   \<and> db_fault (env_event 2000 no_fault) (Suc (length (db_log world0))) = None
   \<and> TransactionHistory world0 = []
   \<and> fst (webhook (env_event 2000 no_fault) 10 request7 world0) =
       (\<lparr>StatusCode = 200,
         Body = ''Received confirmation from Stripe: ''
                @ Description (Object (Data (succeeded_event 2000))),
         Headers = []\<rparr>, None)
   \<and> TransactionHistory (snd (webhook (env_event 2000 no_fault) 10 request7 world0)) =
       TransactionHistory world0
   \<and> Users (snd (webhook (env_event 2000 no_fault) 10 request7 world0)) =
       map (credit (CognitoIdentityPoolID request7)
              (dollars (Amount (Object (Data (succeeded_event 2000)))))) (Users world0)"
proof -
  have h1: "json_event (env_event 2000 no_fault) (RequestBody request7) = Inr (succeeded_event 2000)"
    by (simp add: env_event_def env0_def)
  have h2: "Type (succeeded_event 2000) = ''payment_intent.succeeded''"
    by (simp add: succeeded_event_def)
  have h3: "db_fault (env_event 2000 no_fault) (length (db_log world0)) = None"
    by (simp add: env_event_def env0_def no_fault_def)
  have h4: "db_fault (env_event 2000 no_fault) (Suc (length (db_log world0))) = None"
    by (simp add: env_event_def env0_def no_fault_def)
  have h5: "\<forall>t \<in> set (TransactionHistory world0).
              TransactionID t \<noteq> ID (Object (Data (succeeded_event 2000)))"
    by (simp add: world0_def)
  have h6: "TransactionHistory world0 = []" by (simp add: world0_def)
  show ?thesis
    using h1 h2 h3 h4 h6 webhook_unseen_intent_no_record [OF h1 h2 h3 h4 h5, of 10]
    by blast
qed

text \<open>
  C2 as stated fails: the ledger holds no transaction record before the event, and
  none after the webhook has answered 200 and credited the user.
\<close>

theorem webhook_unseen_intent_counterexample:
  "TransactionHistory world0 = []
   \<and> StatusCode (fst (fst (webhook (env_event 2000 no_fault) 10 request7 world0))) = 200
   \<and> TransactionHistory (snd (webhook (env_event 2000 no_fault) 10 request7 world0)) = []
   \<and> map AccountBalance (Users (snd (webhook (env_event 2000 no_fault) 10 request7 world0))) = [20]"
  by code_simp

subsection \<open>C3: one bounded retry\<close>

text \<open>
  C3. \<^verbatim>\<open>confirmPayment\<close> never issues more than two confirm calls. When the first
  confirm reports \<^verbatim>\<open>requires_confirmation\<close> and the retry answers, exactly two confirm
  calls are issued. If the retry reports \<^verbatim>\<open>succeeded\<close>, exactly one ledger write is
  issued, the INSERT of the pending deposit (a new row when the database runs it), and
  the answer is 200; otherwise (in particular on a second \<^verbatim>\<open>requires_confirmation\<close>)
  no statement is sent, the tables are unchanged, and the answer is the 400 failure
  whose body ends in the retry's status.
\<close>

theorem confirmPayment_bounded_retry:
  "length (stripe_log (snd (confirmPayment E now request w))) \<le> length (stripe_log w) + 2
   \<and> (json_confirm E (RequestBody request) = Inr body
      \<and> paymentintent_Confirm E (length (stripe_log w)) (PaymentIntentID body) = Inr p1
      \<and> pi_Status p1 = PaymentIntentStatusRequiresConfirmation
      \<and> paymentintent_Confirm E (Suc (length (stripe_log w))) (pi_ID p1) = Inr p2
      \<longrightarrow>
        stripe_log (snd (confirmPayment E now request w)) =
          stripe_log w @ [PaymentIntentConfirm (PaymentIntentID body), PaymentIntentConfirm (pi_ID p1)]
        \<and> (if pi_Status p2 = PaymentIntentStatusSucceeded
           then fst (confirmPayment E now request w) =
                  (\<lparr>StatusCode = 200, Body = pending_body, Headers = []\<rparr>, None)
              \<and> db_log (snd (confirmPayment E now request w)) =
                  db_log w @ [InsertTransaction
                    \<lparr>TransactionID = pi_ID p1, TxUserID = CognitoIdentityPoolID request,
                     TransactionType = ''Deposit'', TxAmount = float64_of_int64 (pi_Amount p2),
                     TransactionStatus = ''Pending'', TransactionDate = GoString now\<rparr>]
              \<and> Users (snd (confirmPayment E now request w)) = Users w
              \<and> TransactionHistory (snd (confirmPayment E now request w)) =
                  (case db_fault E (length (db_log w)) of
                     None \<Rightarrow> TransactionHistory w @
                       [\<lparr>TransactionID = pi_ID p1, TxUserID = CognitoIdentityPoolID request,
                         TransactionType = ''Deposit'', TxAmount = float64_of_int64 (pi_Amount p2),
                         TransactionStatus = ''Pending'', TransactionDate = GoString now\<rparr>]
                   | Some e \<Rightarrow> TransactionHistory w)
           else fst (confirmPayment E now request w) =
                  (\<lparr>StatusCode = 400,
                    Body = ''Tried to confirm the payment again, but failed... ''
                           @ [CHR 0x0A] @ pi_Status p2,
                    Headers = []\<rparr>, None)
              \<and> db_log (snd (confirmPayment E now request w)) = db_log w
              \<and> Users (snd (confirmPayment E now request w)) = Users w
              \<and> TransactionHistory (snd (confirmPayment E now request w)) = TransactionHistory w))"
proof (intro conjI impI)
  show "length (stripe_log (snd (confirmPayment E now request w))) \<le> length (stripe_log w) + 2"
    by (simp add: confirmPayment_def stripe_paymentintent_Confirm_def insertTransaction_def
        db_Exec_def Let_def split: sum.splits option.splits prod.splits)
next
  assume h: "json_confirm E (RequestBody request) = Inr body
      \<and> paymentintent_Confirm E (length (stripe_log w)) (PaymentIntentID body) = Inr p1
      \<and> pi_Status p1 = PaymentIntentStatusRequiresConfirmation
      \<and> paymentintent_Confirm E (Suc (length (stripe_log w))) (pi_ID p1) = Inr p2"
  then show "stripe_log (snd (confirmPayment E now request w)) =
      stripe_log w @ [PaymentIntentConfirm (PaymentIntentID body), PaymentIntentConfirm (pi_ID p1)]"
    by (simp add: confirmPayment_def stripe_paymentintent_Confirm_def insertTransaction_def
        db_Exec_def Let_def PaymentIntentStatusRequiresConfirmation_def
        PaymentIntentStatusRequiresAction_def PaymentIntentStatusSucceeded_def
        split: option.splits)
  from h show "if pi_Status p2 = PaymentIntentStatusSucceeded
     then fst (confirmPayment E now request w) =
            (\<lparr>StatusCode = 200, Body = pending_body, Headers = []\<rparr>, None)
        \<and> db_log (snd (confirmPayment E now request w)) =
            db_log w @ [InsertTransaction
              \<lparr>TransactionID = pi_ID p1, TxUserID = CognitoIdentityPoolID request,
               TransactionType = ''Deposit'', TxAmount = float64_of_int64 (pi_Amount p2),
               TransactionStatus = ''Pending'', TransactionDate = GoString now\<rparr>]
        \<and> Users (snd (confirmPayment E now request w)) = Users w
        \<and> TransactionHistory (snd (confirmPayment E now request w)) =
            (case db_fault E (length (db_log w)) of
               None \<Rightarrow> TransactionHistory w @
                 [\<lparr>TransactionID = pi_ID p1, TxUserID = CognitoIdentityPoolID request,
                   TransactionType = ''Deposit'', TxAmount = float64_of_int64 (pi_Amount p2),
                   TransactionStatus = ''Pending'', TransactionDate = GoString now\<rparr>]
             | Some e \<Rightarrow> TransactionHistory w)
     else fst (confirmPayment E now request w) =
            (\<lparr>StatusCode = 400,
              Body = ''Tried to confirm the payment again, but failed... ''
                     @ [CHR 0x0A] @ pi_Status p2,
              Headers = []\<rparr>, None)
        \<and> db_log (snd (confirmPayment E now request w)) = db_log w
        \<and> Users (snd (confirmPayment E now request w)) = Users w
        \<and> TransactionHistory (snd (confirmPayment E now request w)) = TransactionHistory w"
    by (simp add: confirmPayment_def stripe_paymentintent_Confirm_def insertTransaction_def
        db_Exec_def Let_def PaymentIntentStatusRequiresConfirmation_def
        PaymentIntentStatusRequiresAction_def PaymentIntentStatusSucceeded_def
        split: option.splits)
qed

theorem confirmPayment_bounded_retry_witness:
  "stripe_log (snd (confirmPayment
       (env_confirm PaymentIntentStatusRequiresConfirmation PaymentIntentStatusSucceeded no_fault)
       5 request7 world0)) = [PaymentIntentConfirm ''pi_1'', PaymentIntentConfirm ''pi_1'']
   \<and> db_log (snd (confirmPayment
       (env_confirm PaymentIntentStatusRequiresConfirmation PaymentIntentStatusSucceeded no_fault)
       5 request7 world0)) = [InsertTransaction pending_pi_1]
   \<and> TransactionHistory (snd (confirmPayment
       (env_confirm PaymentIntentStatusRequiresConfirmation PaymentIntentStatusSucceeded no_fault)
       5 request7 world0)) = [pending_pi_1]
   \<and> StatusCode (fst (fst (confirmPayment
       (env_confirm PaymentIntentStatusRequiresConfirmation PaymentIntentStatusSucceeded no_fault)
       5 request7 world0))) = 200
   \<and> stripe_log (snd (confirmPayment
       (env_confirm PaymentIntentStatusRequiresConfirmation
          PaymentIntentStatusRequiresConfirmation no_fault)
       5 request7 world0)) = [PaymentIntentConfirm ''pi_1'', PaymentIntentConfirm ''pi_1'']
   \<and> db_log (snd (confirmPayment
       (env_confirm PaymentIntentStatusRequiresConfirmation
          PaymentIntentStatusRequiresConfirmation no_fault)
       5 request7 world0)) = []
   \<and> TransactionHistory (snd (confirmPayment
       (env_confirm PaymentIntentStatusRequiresConfirmation
          PaymentIntentStatusRequiresConfirmation no_fault)
       5 request7 world0)) = []
   \<and> fst (confirmPayment
       (env_confirm PaymentIntentStatusRequiresConfirmation
          PaymentIntentStatusRequiresConfirmation no_fault)
       5 request7 world0) =
       (\<lparr>StatusCode = 400,
         Body = ''Tried to confirm the payment again, but failed... ''
                @ [CHR 0x0A] @ ''requires_confirmation'',
         Headers = []\<rparr>, None)"
proof -
  let ?rc = PaymentIntentStatusRequiresConfirmation
  let ?ok = PaymentIntentStatusSucceeded
  let ?body = "\<lparr>PaymentIntentID = ''pi_1''\<rparr>"
  let ?p = "\<lambda>s. \<lparr>pi_ID = ''pi_1'', pi_Amount = 2000, pi_Status = s\<rparr>"
  have amount: "float64_of_int64 2000 = 2000" by code_simp
  have neq: "?rc \<noteq> ?ok"
    by (simp add: PaymentIntentStatusRequiresConfirmation_def PaymentIntentStatusSucceeded_def)
  have h: "json_confirm (env_confirm ?rc s2 no_fault) (RequestBody request7) = Inr ?body
      \<and> paymentintent_Confirm (env_confirm ?rc s2 no_fault) (length (stripe_log world0))
          (PaymentIntentID ?body) = Inr (?p ?rc)
      \<and> pi_Status (?p ?rc) = ?rc
      \<and> paymentintent_Confirm (env_confirm ?rc s2 no_fault) (Suc (length (stripe_log world0)))
          (pi_ID (?p ?rc)) = Inr (?p s2)" for s2
    by (simp add: env_confirm_def env0_def world0_def)
  have f: "db_fault (env_confirm ?rc s2 no_fault) (length (db_log world0)) = None" for s2
    by (simp add: env_confirm_def env0_def no_fault_def)
  have a: "stripe_log (snd (confirmPayment (env_confirm ?rc ?ok no_fault) 5 request7 world0)) =
             [PaymentIntentConfirm ''pi_1'', PaymentIntentConfirm ''pi_1'']
      \<and> db_log (snd (confirmPayment (env_confirm ?rc ?ok no_fault) 5 request7 world0)) =
             [InsertTransaction pending_pi_1]
      \<and> TransactionHistory (snd (confirmPayment (env_confirm ?rc ?ok no_fault) 5 request7 world0)) =
             [pending_pi_1]
      \<and> StatusCode (fst (fst (confirmPayment (env_confirm ?rc ?ok no_fault) 5 request7 world0))) = 200"
    using confirmPayment_bounded_retry
            [of "env_confirm ?rc ?ok no_fault" 5 request7 world0 ?body "?p ?rc" "?p ?ok"]
          h [of ?ok] f [of ?ok]
    by (simp add: world0_def request7_def pending_pi_1_def amount)
  have b: "stripe_log (snd (confirmPayment (env_confirm ?rc ?rc no_fault) 5 request7 world0)) =
             [PaymentIntentConfirm ''pi_1'', PaymentIntentConfirm ''pi_1'']
      \<and> db_log (snd (confirmPayment (env_confirm ?rc ?rc no_fault) 5 request7 world0)) = []
      \<and> TransactionHistory (snd (confirmPayment (env_confirm ?rc ?rc no_fault) 5 request7 world0)) = []
      \<and> fst (confirmPayment (env_confirm ?rc ?rc no_fault) 5 request7 world0) =
           (\<lparr>StatusCode = 400,
             Body = ''Tried to confirm the payment again, but failed... ''
                    @ [CHR 0x0A] @ ''requires_confirmation'',
             Headers = []\<rparr>, None)"
    using confirmPayment_bounded_retry
            [of "env_confirm ?rc ?rc no_fault" 5 request7 world0 ?body "?p ?rc" "?p ?rc"]
          h [of ?rc] neq
    by (simp add: world0_def PaymentIntentStatusRequiresConfirmation_def)
  show ?thesis using a b by blast
qed

subsection \<open>C4: the balance delta is a float64 quotient\<close>

text \<open>
  C4, as the code has it. \<^verbatim>\<open>updateUserBalance\<close> computes the delta as
  \<^verbatim>\<open>float64(amount) / 100.0\<close> and the database adds that number to the balance of every
  row of the user. For an amount below \<open>2^53\<close> in magnitude the conversion to
  \<^verbatim>\<open>float64\<close> is exact, the delta is the float64 nearest to \<open>amount/100\<close>, within
  \<open>|amount/100| / 2^53\<close> of it, and it is exactly \<open>amount/100\<close> when the amount is a
  multiple of 100 cents (2000 cents give exactly 20).
\<close>

theorem updateUserBalance_float_delta:
  assumes "db_fault E (length (db_log w)) = None"
  shows "db_log (snd (updateUserBalance E userID amount w)) =
           db_log w @ [UpdateBalance (dollars amount) userID]
       \<and> Users (snd (updateUserBalance E userID amount w)) =
           map (credit userID (dollars amount)) (Users w)
       \<and> (\<bar>sint amount\<bar> < 2 ^ 53 \<longrightarrow>
            float64_of_int64 amount = of_int (sint amount)
          \<and> \<bar>dollars amount - of_int (sint amount) / 100\<bar>
              \<le> \<bar>of_int (sint amount) / 100\<bar> / 2 ^ 53
          \<and> (100 dvd sint amount \<longrightarrow> dollars amount = of_int (sint amount) / 100))"
proof -
  have "db_log (snd (updateUserBalance E userID amount w)) =
          db_log w @ [UpdateBalance (dollars amount) userID]"
    using assms
    by (simp add: updateUserBalance_def db_Exec_def Let_def dollars_def)
  moreover have "Users (snd (updateUserBalance E userID amount w)) =
          map (credit userID (dollars amount)) (Users w)"
    using assms
    by (simp add: updateUserBalance_def db_Exec_def Let_def dollars_def credit_def)
  moreover have "float64_of_int64 amount = of_int (sint amount)
          \<and> \<bar>dollars amount - of_int (sint amount) / 100\<bar>
              \<le> \<bar>of_int (sint amount) / 100\<bar> / 2 ^ 53
          \<and> (100 dvd sint amount \<longrightarrow> dollars amount = of_int (sint amount) / 100)"
    if small: "\<bar>sint amount\<bar> < 2 ^ 53"
  proof -
    have conv: "float64_of_int64 amount = of_int (sint amount)"
      unfolding float64_of_int64_def using small by (rule f64_round_int)
    have d: "dollars amount = f64_round (of_int (sint amount) / 100)"
      by (simp add: dollars_def float64_div_def conv)
    have "\<bar>dollars amount - of_int (sint amount) / 100\<bar>
            \<le> \<bar>of_int (sint amount) / 100\<bar> / 2 ^ 53"
      unfolding d by (rule f64_round_err)
    moreover have "100 dvd sint amount \<longrightarrow> dollars amount = of_int (sint amount) / 100"
      using amount_exact [OF small] by (simp add: dollars_def)
    ultimately show ?thesis using conv by blast
  qed
  ultimately show ?thesis by blast
qed

theorem updateUserBalance_float_delta_witness:
  "db_fault env0 (length (db_log world0)) = None
   \<and> \<bar>sint (2000 :: 64 word)\<bar> < 2 ^ 53
   \<and> 100 dvd sint (2000 :: 64 word)
   \<and> map AccountBalance (Users (snd (updateUserBalance env0 ''7'' 2000 world0))) = [20]
   \<and> dollars 2000 = 20"
proof -
  have h1: "db_fault env0 (length (db_log world0)) = None" by (simp add: env0_def)
  have h2: "\<bar>sint (2000 :: 64 word)\<bar> < 2 ^ 53" by simp
  have h3: "100 dvd sint (2000 :: 64 word)" by simp
  have d: "dollars 2000 = 20"
    using updateUserBalance_float_delta [OF h1, of "''7''" 2000] h2 h3 by simp
  have "Users (snd (updateUserBalance env0 ''7'' 2000 world0)) =
          map (credit ''7'' (dollars 2000)) (Users world0)"
    using updateUserBalance_float_delta [OF h1, of "''7''" 2000] by blast
  then have "map AccountBalance (Users (snd (updateUserBalance env0 ''7'' 2000 world0))) = [20]"
    by (simp add: d credit_def world0_def user7_def)
  then show ?thesis using h1 h2 h3 d by blast
qed

text \<open>
  C4 as stated fails: for an amount of 1 cent the number handed to the database is the
  float64 nearest to 0.01, that is \<open>5764607523034235 / 2^59\<close>, and the balance, 0
  before, is that number afterwards, not 1/100.
\<close>

theorem updateUserBalance_float_counterexample:
  "db_log (snd (updateUserBalance env0 ''7'' 1 world0)) =
       [UpdateBalance (5764607523034235 / 576460752303423488) ''7'']
   \<and> map AccountBalance (Users world0) = [0]
   \<and> map AccountBalance (Users (snd (updateUserBalance env0 ''7'' 1 world0))) =
       [5764607523034235 / 576460752303423488]
   \<and> map AccountBalance (Users (snd (updateUserBalance env0 ''7'' 1 world0))) \<noteq> [1 / 100]"
  by code_simp

subsection \<open>C5: a failed ledger write in the confirmation handler\<close>

text \<open>
  C5 asks that a failed ledger write never yields a success outcome. The code at the
  failing input: the confirm call reports \<^verbatim>\<open>succeeded\<close> and the database rejects the
  INSERT. \<^verbatim>\<open>confirmPayment\<close> drops the error \<^verbatim>\<open>insertTransaction\<close> returns and answers
  200 with the "Payment succeeded and is pending" body and a \<^verbatim>\<open>nil\<close> error, although no
  transaction record was written.
\<close>

theorem confirmPayment_insert_failure_answers_200:
  assumes "json_confirm E (RequestBody request) = Inr body"
      and "paymentintent_Confirm E (length (stripe_log w)) (PaymentIntentID body) = Inr p1"
      and "pi_Status p1 = PaymentIntentStatusSucceeded"
      and "db_fault E (length (db_log w)) = Some e"
  shows "fst (confirmPayment E now request w) =
           (\<lparr>StatusCode = 200, Body = pending_body, Headers = []\<rparr>, None)
       \<and> TransactionHistory (snd (confirmPayment E now request w)) = TransactionHistory w
       \<and> fst (insertTransaction E (pi_ID p1) (CognitoIdentityPoolID request) ''Deposit''
               ''Pending'' (GoString now) (float64_of_int64 (pi_Amount p1))
               (snd (stripe_paymentintent_Confirm E (PaymentIntentID body) w))) =
           Some (''error inserting new transaction: '' @ e)"
  using assms
  by (simp add: confirmPayment_def stripe_paymentintent_Confirm_def insertTransaction_def
      db_Exec_def Let_def PaymentIntentStatusRequiresAction_def PaymentIntentStatusSucceeded_def)

theorem confirmPayment_insert_failure_answers_200_witness:
  "json_confirm (env_confirm PaymentIntentStatusSucceeded PaymentIntentStatusSucceeded always_fault)
       (RequestBody request7) = Inr \<lparr>PaymentIntentID = ''pi_1''\<rparr>
   \<and> db_fault (env_confirm PaymentIntentStatusSucceeded PaymentIntentStatusSucceeded always_fault)
       (length (db_log world0)) = Some ''Error 1062: Duplicate entry''
   \<and> fst (confirmPayment
       (env_confirm PaymentIntentStatusSucceeded PaymentIntentStatusSucceeded always_fault)
       5 request7 world0) = (\<lparr>StatusCode = 200, Body = pending_body, Headers = []\<rparr>, None)
   \<and> TransactionHistory (snd (confirmPayment
       (env_confirm PaymentIntentStatusSucceeded PaymentIntentStatusSucceeded always_fault)
       5 request7 world0)) = []"
proof -
  let ?E = "env_confirm PaymentIntentStatusSucceeded PaymentIntentStatusSucceeded always_fault"
  let ?body = "\<lparr>PaymentIntentID = ''pi_1''\<rparr>"
  let ?p = "\<lparr>pi_ID = ''pi_1'', pi_Amount = 2000, pi_Status = PaymentIntentStatusSucceeded\<rparr>"
  have h1: "json_confirm ?E (RequestBody request7) = Inr ?body"
    by (simp add: env_confirm_def env0_def)
  have h2: "paymentintent_Confirm ?E (length (stripe_log world0)) (PaymentIntentID ?body) = Inr ?p"
    by (simp add: env_confirm_def env0_def world0_def)
  have h3: "pi_Status ?p = PaymentIntentStatusSucceeded" by simp
  have h4: "db_fault ?E (length (db_log world0)) = Some ''Error 1062: Duplicate entry''"
    by (simp add: env_confirm_def env0_def always_fault_def)
  have c: "fst (confirmPayment ?E 5 request7 world0) =
             (\<lparr>StatusCode = 200, Body = pending_body, Headers = []\<rparr>, None)
         \<and> TransactionHistory (snd (confirmPayment ?E 5 request7 world0)) = TransactionHistory world0"
    using confirmPayment_insert_failure_answers_200 [OF h1 h2 h3 h4, of 5] by blast
  have t: "TransactionHistory world0 = []" by (simp add: world0_def)
  show ?thesis using h1 h4 c t by simp
qed

subsection \<open>C6: a body that does not parse\<close>

text \<open>
  C6 asks that a malformed event body be reported as a permanent, non-retryable fault.
  The code at any body that \<^verbatim>\<open>json.Unmarshal\<close> rejects: \<^verbatim>\<open>webhook\<close> answers 500
  (\<^verbatim>\<open>http.StatusInternalServerError\<close>) with body "Error processing request" and a
  \<^verbatim>\<open>nil\<close> error, and touches nothing; 500 is the status it also gives to a failed
  ledger write.
\<close>

theorem webhook_malformed_body_answers_500:
  assumes "json_event E (RequestBody request) = Inl err"
  shows "webhook E now request w =
           ((\<lparr>StatusCode = 500, Body = ''Error processing request'', Headers = []\<rparr>, None), w)"
  using assms by (simp add: webhook_def)

theorem webhook_malformed_body_answers_500_witness:
  "RequestBody request_malformed = ''{''
   \<and> json_event env0 (RequestBody request_malformed) = Inl ''unexpected end of JSON input''
   \<and> webhook env0 10 request_malformed world0 =
       ((\<lparr>StatusCode = 500, Body = ''Error processing request'', Headers = []\<rparr>, None), world0)"
proof -
  have b: "RequestBody request_malformed = ''{''" by (simp add: request_malformed_def)
  have h: "json_event env0 (RequestBody request_malformed) = Inl ''unexpected end of JSON input''"
    by (simp add: env0_def)
  show ?thesis
    using b h webhook_malformed_body_answers_500 [OF h, of 10 world0] by blast
qed

subsection \<open>C7: intent submission without a processor customer\<close>

text \<open>
  C7, as the code has it. When the request body parses, the database answers the
  SELECT, and the scanned user has no Stripe customer id, \<^verbatim>\<open>createPaymentIntent\<close>
  returns at once with a body saying that the customer has no Stripe customer ID, and
  makes no Stripe call at all (no customer is created, no payment method attached, no
  intent created) and no database write. The outcome it returns carries HTTP status
  200 and a \<^verbatim>\<open>nil\<close> error.
\<close>

theorem createPaymentIntent_without_customer:
  assumes "json_intent E (RequestBody request) = Inr paymentIntent"
      and "db_fault E (length (db_log w)) = None"
      and "scanned_user (CognitoIdentityPoolID request) w = Some user"
      and "StripeID user = None"
  shows "fst (createPaymentIntent E request w) =
           (\<lparr>StatusCode = 200,
             Body = ''Customer does not have a Stripe customer ID. Are they registered as a customer?'',
             Headers = json_headers\<rparr>, None)
       \<and> stripe_log (snd (createPaymentIntent E request w)) = stripe_log w
       \<and> writes (snd (createPaymentIntent E request w)) = writes w
       \<and> Users (snd (createPaymentIntent E request w)) = Users w
       \<and> TransactionHistory (snd (createPaymentIntent E request w)) = TransactionHistory w"
  using assms
  by (simp add: createPaymentIntent_def db_QueryRow_User_def Let_def scanned_user_def writes_def)

theorem createPaymentIntent_without_customer_witness:
  "json_intent env_intent (RequestBody request7) =
       Inr \<lparr>ReqAmount = 2000, ReqCurrency = ''usd'', PaymentMethodID = ''pm_1''\<rparr>
   \<and> db_fault env_intent (length (db_log world0)) = None
   \<and> scanned_user (CognitoIdentityPoolID request7) world0 = Some user7
   \<and> StripeID user7 = None
   \<and> fst (createPaymentIntent env_intent request7 world0) =
       (\<lparr>StatusCode = 200,
         Body = ''Customer does not have a Stripe customer ID. Are they registered as a customer?'',
         Headers = json_headers\<rparr>, None)
   \<and> stripe_log (snd (createPaymentIntent env_intent request7 world0)) = stripe_log world0"
proof -
  have h1: "json_intent env_intent (RequestBody request7) =
      Inr \<lparr>ReqAmount = 2000, ReqCurrency = ''usd'', PaymentMethodID = ''pm_1''\<rparr>"
    by (simp add: env_intent_def env0_def)
  have h2: "db_fault env_intent (length (db_log world0)) = None"
    by (simp add: env_intent_def env0_def)
  have h3: "scanned_user (CognitoIdentityPoolID request7) world0 = Some user7"
    by (simp add: scanned_user_def request7_def world0_def user7_def)
  have h4: "StripeID user7 = None" by (simp add: user7_def)
  show ?thesis
    using h1 h2 h3 h4 createPaymentIntent_without_customer [OF h1 h2 h3 h4]
    by blast
qed

text \<open>
  C7 as stated fails: for the user without a Stripe customer id the outcome has
  status 200 and a \<^verbatim>\<open>nil\<close> error, the signals of a success.
\<close>

theorem createPaymentIntent_without_customer_counterexample:
  "map StripeID (Users world0) = [None]
   \<and> StatusCode (fst (fst (createPaymentIntent env_intent request7 world0))) = 200
   \<and> snd (fst (createPaymentIntent env_intent request7 world0)) = None"
  by code_simp

subsection \<open>C8: a confirmation that requires action\<close>

text \<open>
  C8. When the confirm call reports \<^verbatim>\<open>requires_action\<close>, \<^verbatim>\<open>confirmPayment\<close> answers
  200 with a \<^verbatim>\<open>nil\<close> error and the "Additional authentication required" body, issues
  no further Stripe call and no database statement, and leaves both tables as they
  were: no transaction record is created and no balance changes.
\<close>

theorem confirmPayment_requires_action_no_ledger:
  assumes "json_confirm E (RequestBody request) = Inr body"
      and "paymentintent_Confirm E (length (stripe_log w)) (PaymentIntentID body) = Inr p1"
      and "pi_Status p1 = PaymentIntentStatusRequiresAction"
  shows "fst (confirmPayment E now request w) =
           (\<lparr>StatusCode = 200,
             Body = ''Additional authentication required. Possible issues with 3D secure auth ''
                    @ [CHR 0x0A] @ '' requires_action'',
             Headers = []\<rparr>, None)
       \<and> stripe_log (snd (confirmPayment E now request w)) =
           stripe_log w @ [PaymentIntentConfirm (PaymentIntentID body)]
       \<and> db_log (snd (confirmPayment E now request w)) = db_log w
       \<and> TransactionHistory (snd (confirmPayment E now request w)) = TransactionHistory w
       \<and> Users (snd (confirmPayment E now request w)) = Users w"
  using assms
  by (simp add: confirmPayment_def stripe_paymentintent_Confirm_def
      PaymentIntentStatusRequiresAction_def)

theorem confirmPayment_requires_action_no_ledger_witness:
  "json_confirm (env_confirm PaymentIntentStatusRequiresAction PaymentIntentStatusSucceeded no_fault)
       (RequestBody request7) = Inr \<lparr>PaymentIntentID = ''pi_1''\<rparr>
   \<and> paymentintent_Confirm
       (env_confirm PaymentIntentStatusRequiresAction PaymentIntentStatusSucceeded no_fault)
       (length (stripe_log world0)) ''pi_1'' =
       Inr \<lparr>pi_ID = ''pi_1'', pi_Amount = 2000, pi_Status = PaymentIntentStatusRequiresAction\<rparr>
   \<and> StatusCode (fst (fst (confirmPayment
       (env_confirm PaymentIntentStatusRequiresAction PaymentIntentStatusSucceeded no_fault)
       5 request7 world0))) = 200
   \<and> db_log (snd (confirmPayment
       (env_confirm PaymentIntentStatusRequiresAction PaymentIntentStatusSucceeded no_fault)
       5 request7 world0)) = db_log world0
   \<and> TransactionHistory (snd (confirmPayment
       (env_confirm PaymentIntentStatusRequiresAction PaymentIntentStatusSucceeded no_fault)
       5 request7 world0)) = TransactionHistory world0
   \<and> Users (snd (confirmPayment
       (env_confirm PaymentIntentStatusRequiresAction PaymentIntentStatusSucceeded no_fault)
       5 request7 world0)) = Users world0"
proof -
  let ?E = "env_confirm PaymentIntentStatusRequiresAction PaymentIntentStatusSucceeded no_fault"
  let ?body = "\<lparr>PaymentIntentID = ''pi_1''\<rparr>"
  let ?p = "\<lparr>pi_ID = ''pi_1'', pi_Amount = 2000, pi_Status = PaymentIntentStatusRequiresAction\<rparr>"
  have h1: "json_confirm ?E (RequestBody request7) = Inr ?body"
    by (simp add: env_confirm_def env0_def)
  have h2: "paymentintent_Confirm ?E (length (stripe_log world0)) (PaymentIntentID ?body) = Inr ?p"
    by (simp add: env_confirm_def env0_def world0_def)
  have h3: "pi_Status ?p = PaymentIntentStatusRequiresAction" by simp
  show ?thesis
    using h1 h2 confirmPayment_requires_action_no_ledger [OF h1 h2 h3, of 5]
    by simp
qed

subsection \<open>C9: the customer identity mapping\<close>

text \<open>
  C9. Every invocation of \<^verbatim>\<open>createCustomer\<close> issues at most one write statement.
  \<^verbatim>\<open>customer.Get\<close> of stripe-go hands back the customer it allocated whenever it
  reports no error, so a lookup answers with an error or with a customer; with such a
  Stripe, an invocation for a user who already holds a customer reference leaves
  \<^verbatim>\<open>Users\<close> as it was: the reference is never overwritten. When a first call has
  returned the reference \<open>X\<close>, lookups return the customer they were asked for, and in
  a second call the database answers the SELECT and Stripe still finds \<open>X\<close> (no
  deletion in between), the second call returns \<open>X\<close> again, issues no write
  statement and leaves \<^verbatim>\<open>Users\<close> unchanged.
\<close>

theorem createCustomer_identity_mapping:
  "length (writes (snd (createCustomer E request w))) \<le> length (writes w) + 1
   \<and> ((\<forall>n y. customer_Get E n y \<noteq> Inr None)
      \<and> scanned_user (CognitoIdentityPoolID request) w = Some u
      \<and> StripeID u = Some sid
      \<longrightarrow> Users (snd (createCustomer E request w)) = Users w)
   \<and> ((\<forall>n y c. customer_Get E n y = Inr (Some c) \<longrightarrow> cust_ID c = y)
      \<and> returns_reference (fst (createCustomer E request w)) X
      \<and> db_fault E (length (db_log (snd (createCustomer E request w)))) = None
      \<and> customer_Get E (length (stripe_log (snd (createCustomer E request w)))) X = Inr (Some c')
      \<longrightarrow> returns_reference
            (fst (createCustomer E request (snd (createCustomer E request w)))) X
        \<and> writes (snd (createCustomer E request (snd (createCustomer E request w)))) =
            writes (snd (createCustomer E request w))
        \<and> Users (snd (createCustomer E request (snd (createCustomer E request w)))) =
            Users (snd (createCustomer E request w)))"
proof (intro conjI impI)
  show "length (writes (snd (createCustomer E request w))) \<le> length (writes w) + 1"
    by (rule createCustomer_writes)
next
  assume a: "(\<forall>n y. customer_Get E n y \<noteq> Inr None)
      \<and> scanned_user (CognitoIdentityPoolID request) w = Some u
      \<and> StripeID u = Some sid"
  show "Users (snd (createCustomer E request w)) = Users w"
  proof (rule ccontr)
    assume "Users (snd (createCustomer E request w)) \<noteq> Users w"
    then have "customer_Get E (length (stripe_log w)) sid = Inr None"
      using createCustomer_overwrite [of request w u sid E] a by blast
    with a show False by blast
  qed
next
  let ?w1 = "snd (createCustomer E request w)"
  assume h: "(\<forall>n y c. customer_Get E n y = Inr (Some c) \<longrightarrow> cust_ID c = y)
      \<and> returns_reference (fst (createCustomer E request w)) X
      \<and> db_fault E (length (db_log ?w1)) = None
      \<and> customer_Get E (length (stripe_log ?w1)) X = Inr (Some c')"
  then have faithful: "\<And>n y c. customer_Get E n y = Inr (Some c) \<Longrightarrow> cust_ID c = y"
    by blast
  from h have ref: "returns_reference (fst (createCustomer E request w)) X" by blast
  have "\<exists>u. scanned_user (CognitoIdentityPoolID request) ?w1 = Some u \<and> StripeID u = Some X"
  proof (rule createCustomer_reference)
    show "\<And>n y c. customer_Get E n y = Inr (Some c) \<Longrightarrow> cust_ID c = y"
      by (rule faithful)
    show "returns_reference (fst (createCustomer E request w)) X"
      by (rule ref)
  qed
  then obtain u' where u': "scanned_user (CognitoIdentityPoolID request) ?w1 = Some u'"
      "StripeID u' = Some X"
    by blast
  have c': "cust_ID c' = X" using faithful h by blast
  have second: "createCustomer E request ?w1 =
      ((\<lparr>StatusCode = 200,
         Body = ''Customer already exists with Stripe ID: '' @ X,
         Headers = json_headers\<rparr>, None),
       ?w1\<lparr>db_log := db_log ?w1 @ [SelectUser (CognitoIdentityPoolID request)],
           stripe_log := stripe_log ?w1 @ [CustomerGet X]\<rparr>)"
    using createCustomer_existing [of E ?w1 request u' X c'] h u' c' by simp
  show "returns_reference (fst (createCustomer E request ?w1)) X"
    by (simp add: second returns_reference_def)
  show "writes (snd (createCustomer E request ?w1)) = writes ?w1"
    by (simp add: second writes_def)
  show "Users (snd (createCustomer E request ?w1)) = Users ?w1"
    by (simp add: second)
qed

theorem createCustomer_identity_mapping_witness:
  "(\<forall>n y. customer_Get env_customers n y \<noteq> Inr None)
   \<and> customer_Get env_customers (length (stripe_log (snd (createCustomer env_customers request7 world0))))
       ''cus_1'' = Inr (Some \<lparr>cust_ID = ''cus_1''\<rparr>)
   \<and> returns_reference (fst (createCustomer env_customers request7 world0)) ''cus_1''
   \<and> returns_reference (fst (createCustomer env_customers request7
        (snd (createCustomer env_customers request7 world0)))) ''cus_1''
   \<and> writes (snd (createCustomer env_customers request7
        (snd (createCustomer env_customers request7 world0)))) =
       writes (snd (createCustomer env_customers request7 world0))
   \<and> Users (snd (createCustomer env_customers request7
        (snd (createCustomer env_customers request7 world0)))) =
       Users (snd (createCustomer env_customers request7 world0))
   \<and> scanned_user (CognitoIdentityPoolID request7) world_mapped =
       Some (user7\<lparr>StripeID := Some ''cus_1''\<rparr>)
   \<and> Users (snd (createCustomer env_customers request7 world_mapped)) = Users world_mapped
   \<and> length (writes (snd (createCustomer env_customers request7 world_mapped)))
       \<le> length (writes world_mapped) + 1"
proof -
  let ?w1 = "snd (createCustomer env_customers request7 world0)"
  have first: "createCustomer env_customers request7 world0 =
      ((\<lparr>StatusCode = 200, Body = ''Created new customer in Stripe with ID: cus_1'',
         Headers = json_headers\<rparr>, None),
       \<lparr>Users = [user7\<lparr>StripeID := Some ''cus_1''\<rparr>], TransactionHistory = [],
        db_log = [SelectUser ''7'', UpdateStripeID ''cus_1'' ''7''],
        stripe_log = [CustomerNew \<lparr>cp_Email = ''jenny@example.com'', cp_Name = ''Jenny Rosen'',
                                    cp_Metadata = [(''UserID'', ''7'')]\<rparr>]\<rparr>)"
    by (simp add: createCustomer_def createCustomer_new_def db_QueryRow_User_def db_Exec_def
        stripe_customer_New_def env_customers_def env0_def request7_def world0_def user7_def
        Let_def)
  have h0: "\<forall>n y. customer_Get env_customers n y \<noteq> Inr None"
    by (simp add: env_customers_def env0_def)
  have h1: "\<forall>n y c. customer_Get env_customers n y = Inr (Some c) \<longrightarrow> cust_ID c = y"
    by (auto simp: env_customers_def env0_def)
  have h2: "returns_reference (fst (createCustomer env_customers request7 world0)) ''cus_1''"
    by (simp add: first returns_reference_def)
  have h3: "db_fault env_customers (length (db_log ?w1)) = None"
    by (simp add: env_customers_def env0_def)
  have h4: "customer_Get env_customers (length (stripe_log ?w1)) ''cus_1'' =
      Inr (Some \<lparr>cust_ID = ''cus_1''\<rparr>)"
    by (simp add: env_customers_def env0_def)
  have a: "returns_reference (fst (createCustomer env_customers request7 ?w1)) ''cus_1''
      \<and> writes (snd (createCustomer env_customers request7 ?w1)) = writes ?w1
      \<and> Users (snd (createCustomer env_customers request7 ?w1)) = Users ?w1"
    using createCustomer_identity_mapping
            [of env_customers request7 world0 _ _ "''cus_1''" "\<lparr>cust_ID = ''cus_1''\<rparr>"]
          h1 h2 h3 h4
    by blast
  have g1: "scanned_user (CognitoIdentityPoolID request7) world_mapped =
      Some (user7\<lparr>StripeID := Some ''cus_1''\<rparr>)"
    by (simp add: scanned_user_def request7_def world_mapped_def world0_def user7_def)
  have g2: "StripeID (user7\<lparr>StripeID := Some ''cus_1''\<rparr>) = Some ''cus_1''" by simp
  have b: "Users (snd (createCustomer env_customers request7 world_mapped)) = Users world_mapped
      \<and> length (writes (snd (createCustomer env_customers request7 world_mapped)))
          \<le> length (writes world_mapped) + 1"
    using createCustomer_identity_mapping
            [of env_customers request7 world_mapped "user7\<lparr>StripeID := Some ''cus_1''\<rparr>" "''cus_1''"]
          h0 g1 g2
    by blast
  show ?thesis using h0 h2 h4 a g1 b by blast
qed

subsection \<open>C10: the webhook's error return\<close>

text \<open>
  C10. For every request, clock reading, world and collaborators, the error that
  \<^verbatim>\<open>webhook\<close> returns is \<^verbatim>\<open>nil\<close>, and its status code is 200 or 500. The three
  failures are told by status 500 and the body alone: a body that does not parse, a
  failed update of the transaction history, and a failed update of the balance.
\<close>

theorem webhook_error_always_nil:
  "snd (fst (webhook E now request w)) = None
   \<and> StatusCode (fst (fst (webhook E now request w))) \<in> {200, 500}
   \<and> (json_event E (RequestBody request) = Inl err
      \<longrightarrow> fst (webhook E now request w) =
            (\<lparr>StatusCode = 500, Body = ''Error processing request'', Headers = []\<rparr>, None))
   \<and> (json_event E (RequestBody request) = Inr ev
      \<and> Type ev = ''payment_intent.succeeded''
      \<and> db_fault E (length (db_log w)) = Some e1
      \<longrightarrow> fst (webhook E now request w) =
            (\<lparr>StatusCode = 500, Body = ''Failed to update transaction history'',
              Headers = []\<rparr>, None))
   \<and> (json_event E (RequestBody request) = Inr ev
      \<and> Type ev = ''payment_intent.succeeded''
      \<and> db_fault E (length (db_log w)) = None
      \<and> db_fault E (Suc (length (db_log w))) = Some e2
      \<longrightarrow> fst (webhook E now request w) =
            (\<lparr>StatusCode = 500, Body = ''Failed to update user balance'', Headers = []\<rparr>, None))"
  by (simp add: webhook_def updateTransactionHistory_def updateUserBalance_def db_Exec_def
      Let_def split: sum.splits option.splits prod.splits)

theorem webhook_error_always_nil_witness:
  "fst (webhook env0 10 request_malformed world0) =
       (\<lparr>StatusCode = 500, Body = ''Error processing request'', Headers = []\<rparr>, None)
   \<and> fst (webhook (env_event 2000 always_fault) 10 request7 world0) =
       (\<lparr>StatusCode = 500, Body = ''Failed to update transaction history'', Headers = []\<rparr>, None)
   \<and> fst (webhook (env_event 2000 second_fault) 10 request7 world0) =
       (\<lparr>StatusCode = 500, Body = ''Failed to update user balance'', Headers = []\<rparr>, None)
   \<and> snd (fst (webhook (env_event 2000 no_fault) 10 request7 world0)) = None"
proof -
  have a: "json_event env0 (RequestBody request_malformed) = Inl ''unexpected end of JSON input''"
    by (simp add: env0_def)
  have ev: "json_event (env_event 2000 f) (RequestBody request7) = Inr (succeeded_event 2000)
      \<and> Type (succeeded_event 2000) = ''payment_intent.succeeded''" for f
    by (simp add: env_event_def env0_def succeeded_event_def)
  have b: "db_fault (env_event 2000 always_fault) (length (db_log world0)) =
      Some ''Error 1062: Duplicate entry''"
    by (simp add: env_event_def env0_def always_fault_def)
  have c: "db_fault (env_event 2000 second_fault) (length (db_log world0)) = None
      \<and> db_fault (env_event 2000 second_fault) (Suc (length (db_log world0))) =
          Some ''invalid connection''"
    by (simp add: env_event_def env0_def second_fault_def world0_def)
  have 1: "fst (webhook env0 10 request_malformed world0) =
      (\<lparr>StatusCode = 500, Body = ''Error processing request'', Headers = []\<rparr>, None)"
    using webhook_error_always_nil
            [of env0 10 request_malformed world0 "''unexpected end of JSON input''"] a
    by blast
  have 2: "fst (webhook (env_event 2000 always_fault) 10 request7 world0) =
      (\<lparr>StatusCode = 500, Body = ''Failed to update transaction history'', Headers = []\<rparr>, None)"
    using webhook_error_always_nil
            [of "env_event 2000 always_fault" 10 request7 world0 _ "succeeded_event 2000"
                "''Error 1062: Duplicate entry''"]
          ev [of always_fault] b
    by blast
  have 3: "fst (webhook (env_event 2000 second_fault) 10 request7 world0) =
      (\<lparr>StatusCode = 500, Body = ''Failed to update user balance'', Headers = []\<rparr>, None)"
    using webhook_error_always_nil
            [of "env_event 2000 second_fault" 10 request7 world0 _ "succeeded_event 2000" _
                "''invalid connection''"]
          ev [of second_fault] c
    by blast
  have 4: "snd (fst (webhook (env_event 2000 no_fault) 10 request7 world0)) = None"
    using webhook_error_always_nil [of "env_event 2000 no_fault" 10 request7 world0] by blast
  show ?thesis using 1 2 3 4 by blast
qed

end
